theory Spec2Isabelle
  imports Complex_Main
begin

section \<open>JavaScript values and plan data\<close>

text \<open>
  The embedding follows \<^verbatim>\<open>src/components/Viewer3D.tsx\<close>. A JavaScript number is either
  \<open>NaN\<close> or an exact real: rounding of doubles, the two infinities and negative zero are
  outside the model. Coordinates, which the code tests with \<^verbatim>\<open>typeof\<close>, may hold any
  scalar value; \<open>width\<close>, \<open>thickness\<close>, \<open>rotation\<close> and \<open>areaSqFt\<close>, which the code only
  tests for truthiness, are a number or absent (\<open>None\<close>), as the declared type
  \<^verbatim>\<open>number\<close> and the response schema of \<^verbatim>\<open>geminiService.ts\<close> have them. An object-valued
  field (\<open>start\<close>, \<open>end\<close>, \<open>position\<close>, \<open>center\<close>, a polygon vertex) is an object or
  absent (\<open>None\<close> stands for \<^verbatim>\<open>undefined\<close> and \<^verbatim>\<open>null\<close>, which behave alike in every
  test and property access of this file).
\<close>

datatype jsnum = NaN | Fin real

datatype jsval = JUndefined | JNull | JBool bool | JStr string | JNum jsnum

datatype js_error = TypeError

record Point2D =
  px :: jsval
  py :: jsval

record Wall =
  w_id :: "string option"
  w_start :: "Point2D option"
  w_end :: "Point2D option"
  w_thickness :: "jsnum option"

record Door =
  d_id :: "string option"
  d_position :: "Point2D option"
  d_width :: "jsnum option"
  d_rotation :: "jsnum option"

record Room =
  r_id :: "string option"
  r_name :: "string option"
  r_areaSqFt :: "jsnum option"
  r_center :: "Point2D option"
  r_polygon :: "Point2D option list option"

record BlueprintAnalysis =
  walls :: "Wall list option"
  doors :: "Door list option"
  rooms :: "Room list option"

text \<open>\<^verbatim>\<open>typeof v === 'number'\<close>, which holds for \<open>NaN\<close> too.\<close>

definition typeof_number :: "jsval \<Rightarrow> bool" where
  "typeof_number v = (case v of JNum _ \<Rightarrow> True | _ \<Rightarrow> False)"

text \<open>\<^verbatim>\<open>isNaN\<close> on a value already known to be a number.\<close>

definition isNaN :: "jsval \<Rightarrow> bool" where
  "isNaN v = (v = JNum NaN)"

text \<open>Truthiness of a numeric field: absent, \<open>NaN\<close> and \<open>0\<close> are falsy.\<close>

definition truthy :: "jsnum option \<Rightarrow> bool" where
  "truthy n = (case n of Some (Fin r) \<Rightarrow> r \<noteq> 0 | _ \<Rightarrow> False)"

text \<open>\<^verbatim>\<open>n || dflt\<close> for a numeric field and a numeric default.\<close>

definition or_default :: "jsnum option \<Rightarrow> real \<Rightarrow> real" where
  "or_default n dflt = (case n of Some (Fin r) \<Rightarrow> (if r \<noteq> 0 then r else dflt) | _ \<Rightarrow> dflt)"

section \<open>Coordinate mapper\<close>

text \<open>
  \<^verbatim>\<open>if (typeof val !== 'number' || isNaN(val)) return 0; return (val - 50) / 2;\<close>
  Both returns are numbers other than \<open>NaN\<close>, so the result is a real.
\<close>

definition mapCoord :: "jsval \<Rightarrow> real" where
  "mapCoord val =
     (if \<not> typeof_number val \<or> isNaN val then 0
      else (case val of JNum (Fin v) \<Rightarrow> (v - 50) / 2 | _ \<Rightarrow> 0))"

section \<open>The vector operations of three.js that the viewer calls\<close>

record Vector3 =
  vx :: real
  vy :: real
  vz :: real

definition distanceToSquared :: "Vector3 \<Rightarrow> Vector3 \<Rightarrow> real" where
  "distanceToSquared a b =
     (let dx = vx a - vx b; dy = vy a - vy b; dz = vz a - vz b
      in dx * dx + dy * dy + dz * dz)"

definition distanceTo :: "Vector3 \<Rightarrow> Vector3 \<Rightarrow> real" where
  "distanceTo a b = sqrt (distanceToSquared a b)"

definition dot :: "Vector3 \<Rightarrow> Vector3 \<Rightarrow> real" where
  "dot a b = vx a * vx b + vy a * vy b + vz a * vz b"

definition subVectors :: "Vector3 \<Rightarrow> Vector3 \<Rightarrow> Vector3" where
  "subVectors a b = \<lparr>vx = vx a - vx b, vy = vy a - vy b, vz = vz a - vz b\<rparr>"

definition clamp :: "real \<Rightarrow> real \<Rightarrow> real \<Rightarrow> real" where
  "clamp value mn mx = max mn (min mx value)"

text \<open>
  \<^verbatim>\<open>Line3.closestPointToPointParameter\<close>. The quotient is \<open>NaN\<close> in JavaScript when the
  line has length zero; \<open>WallSegment\<close> reaches it only behind its degenerate-wall guard,
  where the divisor is at least \<open>0.01\<close> (lemma \<open>startEnd2_positive\<close>).
\<close>

definition closestPointToPointParameter :: "Vector3 \<Rightarrow> Vector3 \<Rightarrow> Vector3 \<Rightarrow> bool \<Rightarrow> real" where
  "closestPointToPointParameter lstart lend point clampToLine =
     (let startP = subVectors point lstart;
          startEnd = subVectors lend lstart;
          startEnd2 = dot startEnd startEnd;
          startEnd_startP = dot startEnd startP;
          t = startEnd_startP / startEnd2
      in if clampToLine then clamp t 0 1 else t)"

definition closestPointToPoint :: "Vector3 \<Rightarrow> Vector3 \<Rightarrow> Vector3 \<Rightarrow> bool \<Rightarrow> Vector3" where
  "closestPointToPoint lstart lend point clampToLine =
     (let t = closestPointToPointParameter lstart lend point clampToLine;
          delta = subVectors lend lstart
      in \<lparr>vx = vx delta * t + vx lstart, vy = vy delta * t + vy lstart,
          vz = vz delta * t + vz lstart\<rparr>)"

text \<open>\<^verbatim>\<open>Math.atan2(y, x)\<close> on reals.\<close>

definition atan2 :: "real \<Rightarrow> real \<Rightarrow> real" where
  "atan2 y x =
     (if 0 < x then arctan (y / x)
      else if x < 0 then (if 0 \<le> y then arctan (y / x) + pi else arctan (y / x) - pi)
      else if 0 < y then pi / 2
      else if y < 0 then - (pi / 2)
      else 0)"

section \<open>Wall segment\<close>

type_synonym path = "(real \<times> real) list"

record Shape =
  outline :: path
  holes :: "path list"

record ExtrudeSettings =
  depth :: real
  bevelEnabled :: bool
  bevelThickness :: real
  bevelSize :: real
  bevelSegments :: nat
  steps :: nat

record DoorOnWall =
  dw_door :: Door
  distFromStart :: real

record WallSolid =
  ws_position :: Vector3
  ws_rotationY :: real
  ws_meshZ :: real
  ws_shape :: Shape
  ws_extrude :: ExtrudeSettings
  ws_color :: string

text \<open>
  \<^verbatim>\<open>new THREE.Vector3(mapCoord(p.x), 0, mapCoord(p.y))\<close> for an object \<open>p\<close>.
\<close>

definition worldPoint :: "Point2D \<Rightarrow> Vector3" where
  "worldPoint p = \<lparr>vx = mapCoord (px p), vy = 0, vz = mapCoord (py p)\<rparr>"

text \<open>
  The same for \<^verbatim>\<open>door.position\<close>, which the wall's door sweep reads with no guard:
  reading \<^verbatim>\<open>.x\<close> of an absent position throws a \<^verbatim>\<open>TypeError\<close>.
\<close>

definition doorPos :: "Door \<Rightarrow> js_error + Vector3" where
  "doorPos door =
     (case d_position door of None \<Rightarrow> Inl TypeError | Some p \<Rightarrow> Inr (worldPoint p))"

text \<open>
  \<^verbatim>\<open>wall.thickness ? Math.min(Math.max(wall.thickness / 5, 0.3), 1.0) : 0.5\<close>
\<close>

definition wallThickness :: "jsnum option \<Rightarrow> real" where
  "wallThickness t =
     (if truthy t then (case t of Some (Fin r) \<Rightarrow> min (max (r / 5) 0.3) 1.0 | _ \<Rightarrow> 0.5)
      else 0.5)"

text \<open>The body of the filter callback, once the door's world position is known.\<close>

definition onWall :: "Vector3 \<Rightarrow> Vector3 \<Rightarrow> real \<Rightarrow> Vector3 \<Rightarrow> bool" where
  "onWall start end' length' doorP =
     (let closest = closestPointToPoint start end' doorP True;
          distToLine = distanceTo closest doorP
      in if distToLine > 1.0 then False
         else (let distFromStart = distanceTo closest start
               in distFromStart > 0.5 \<and> distFromStart < length' - 0.5))"

definition doorFilter :: "Vector3 \<Rightarrow> Vector3 \<Rightarrow> real \<Rightarrow> Door \<Rightarrow> js_error + bool" where
  "doorFilter start end' length' door =
     (case doorPos door of Inl err \<Rightarrow> Inl err
      | Inr doorP \<Rightarrow> Inr (onWall start end' length' doorP))"

text \<open>\<^verbatim>\<open>Array.filter\<close> and \<^verbatim>\<open>Array.map\<close> with a callback that may throw.\<close>

fun filterE :: "('a \<Rightarrow> js_error + bool) \<Rightarrow> 'a list \<Rightarrow> js_error + 'a list" where
  "filterE p [] = Inr []"
| "filterE p (x # xs) =
     (case p x of Inl err \<Rightarrow> Inl err
      | Inr b \<Rightarrow>
          (case filterE p xs of Inl err \<Rightarrow> Inl err
           | Inr ys \<Rightarrow> Inr (if b then x # ys else ys)))"

fun mapE :: "('a \<Rightarrow> js_error + 'b) \<Rightarrow> 'a list \<Rightarrow> js_error + 'b list" where
  "mapE f [] = Inr []"
| "mapE f (x # xs) =
     (case f x of Inl err \<Rightarrow> Inl err
      | Inr y \<Rightarrow> (case mapE f xs of Inl err \<Rightarrow> Inl err | Inr ys \<Rightarrow> Inr (y # ys)))"

text \<open>The callback of the \<^verbatim>\<open>map\<close> that follows the filter.\<close>

definition withDist :: "Vector3 \<Rightarrow> Door \<Rightarrow> js_error + DoorOnWall" where
  "withDist start door =
     (case doorPos door of Inl err \<Rightarrow> Inl err
      | Inr doorP \<Rightarrow> Inr \<lparr>dw_door = door, distFromStart = distanceTo start doorP\<rparr>)"

definition relevantDoors ::
  "Vector3 \<Rightarrow> Vector3 \<Rightarrow> real \<Rightarrow> Door list option \<Rightarrow> js_error + DoorOnWall list" where
  "relevantDoors start end' length' ds =
     (case ds of None \<Rightarrow> Inr []
      | Some dl \<Rightarrow>
          (case filterE (doorFilter start end' length') dl of Inl err \<Rightarrow> Inl err
           | Inr kept \<Rightarrow> mapE (withDist start) kept))"

text \<open>The hole path that the \<^verbatim>\<open>forEach\<close> over the relevant doors pushes.\<close>

definition doorHole :: "DoorOnWall \<Rightarrow> path" where
  "doorHole door =
     (let doorW = or_default (d_width (dw_door door)) 6 * 0.5;
          doorH = 2.2;
          doorLeft = distFromStart door - doorW / 2
      in [(doorLeft, 0), (doorLeft + doorW, 0), (doorLeft + doorW, doorH), (doorLeft, doorH)])"

definition wallShape :: "real \<Rightarrow> real \<Rightarrow> DoorOnWall list \<Rightarrow> Shape" where
  "wallShape length' height rds =
     \<lparr>outline = [(0, 0), (length', 0), (length', height), (0, height)],
      holes = map doorHole rds\<rparr>"

definition WallSegment :: "Wall \<Rightarrow> Door list option \<Rightarrow> js_error + WallSolid option" where
  "WallSegment wall ds =
     (case w_start wall of None \<Rightarrow> Inr None
      | Some s \<Rightarrow>
     (case w_end wall of None \<Rightarrow> Inr None
      | Some e \<Rightarrow>
        if \<not> typeof_number (px s) \<or> \<not> typeof_number (py s) \<or>
           \<not> typeof_number (px e) \<or> \<not> typeof_number (py e) then Inr None
        else
          (let start = worldPoint s; end' = worldPoint e
           in if distanceToSquared start end' < 0.01 then Inr None
              else
                (let length' = distanceTo start end';
                     height = 3.0;
                     thickness = wallThickness (w_thickness wall);
                     dx = vx end' - vx start;
                     dz = vz end' - vz start;
                     angle = atan2 dz dx
                 in case relevantDoors start end' length' ds of Inl err \<Rightarrow> Inl err
                    | Inr rds \<Rightarrow>
                        Inr (Some
                          \<lparr>ws_position = start,
                           ws_rotationY = - angle,
                           ws_meshZ = - thickness / 2,
                           ws_shape = wallShape length' height rds,
                           ws_extrude = \<lparr>depth = thickness, bevelEnabled = True,
                             bevelThickness = 0.02, bevelSize = 0.02,
                             bevelSegments = 2, steps = 1\<rparr>,
                           ws_color = ''#334155''\<rparr>)))))"

section \<open>Door assembly\<close>

datatype geom =
  BoxGeometry real real real
  | RoundedBox real real real real
  | SphereGeometry real

datatype node =
  Mesh "real \<times> real \<times> real" geom string
  | Group "real \<times> real \<times> real" "node list"

record DoorAssembly =
  da_position :: "real \<times> real \<times> real"
  da_rotationY :: real
  da_children :: "node list"

definition DoorMesh :: "Door \<Rightarrow> DoorAssembly option" where
  "DoorMesh door =
     (case d_position door of None \<Rightarrow> None
      | Some p \<Rightarrow>
        if \<not> typeof_number (px p) \<or> \<not> typeof_number (py p) then None
        else
          (let openingWidth = or_default (d_width door) 6 * 0.5;
               height = 2.2;
               leafThickness = 0.1;
               frameDepth = 0.6;
               frameWidth = 0.1;
               casingWidth = 0.15;
               casingDepth = 0.05;
               rotationRad = or_default (d_rotation door) 0 * (pi / 180)
           in Some
             \<lparr>da_position = (mapCoord (px p), 0, mapCoord (py p)),
              da_rotationY = - rotationRad,
              da_children =
                [Mesh (- openingWidth / 2 - frameWidth / 2, height / 2, 0)
                   (BoxGeometry frameWidth height frameDepth) ''#334155'',
                 Mesh (openingWidth / 2 + frameWidth / 2, height / 2, 0)
                   (BoxGeometry frameWidth height frameDepth) ''#334155'',
                 Mesh (0, height + frameWidth / 2, 0)
                   (BoxGeometry (openingWidth + frameWidth * 2) frameWidth frameDepth)
                   ''#334155'']
                @ map (\<lambda>side.
                    Group (0, 0, side * (frameDepth / 2 + casingDepth / 2))
                      [Mesh (0, height + frameWidth + casingWidth / 2 - 0.05, 0)
                         (BoxGeometry (openingWidth + frameWidth * 2 + casingWidth * 2)
                            casingWidth casingDepth) ''#475569'',
                       Mesh (- openingWidth / 2 - frameWidth - casingWidth / 2 + 0.05,
                             height / 2, 0)
                         (BoxGeometry casingWidth height casingDepth) ''#475569'',
                       Mesh (openingWidth / 2 + frameWidth + casingWidth / 2 - 0.05,
                             height / 2, 0)
                         (BoxGeometry casingWidth height casingDepth) ''#475569''])
                    [- 1, 1]
                @ [Group (0, height / 2, 0)
                     [Mesh (0, 0, 0)
                        (RoundedBox openingWidth (height - 0.02) leafThickness 0.02)
                        ''#854d0e'',
                      Group (openingWidth * 0.35, 0, leafThickness / 2 + 0.04)
                        [Mesh (0, 0, 0) (SphereGeometry 0.06) ''#fbbf24'',
                         Mesh (0, 0, - leafThickness - 0.08) (SphereGeometry 0.06)
                           ''#fbbf24'']]]\<rparr>))"

section \<open>Room floor\<close>

record Material =
  m_color :: string
  m_opacity :: real
  m_transparent :: bool
  m_emissive :: string
  m_emissiveIntensity :: real

record RoomNode =
  rn_shape :: path
  rn_depth :: real
  rn_material :: Material
  rn_labelPos :: "real \<times> real \<times> real"
  rn_labelHighlighted :: bool
  rn_name :: "string option"
  rn_area :: jsnum
  rn_pickId :: "string option"

text \<open>The predicate of the polygon filter.\<close>

definition validPoint :: "Point2D option \<Rightarrow> bool" where
  "validPoint p =
     (case p of None \<Rightarrow> False
      | Some q \<Rightarrow> typeof_number (px q) \<and> \<not> isNaN (px q) \<and>
                  typeof_number (py q) \<and> \<not> isNaN (py q))"

text \<open>\<^verbatim>\<open>room.polygon?.filter(...) || []\<close>, the kept entries being objects.\<close>

definition validPoints :: "Point2D option list option \<Rightarrow> Point2D list" where
  "validPoints polygon =
     (case polygon of None \<Rightarrow> []
      | Some ps \<Rightarrow> List.map_filter (\<lambda>p. if validPoint p then p else None) ps)"

definition roomShape :: "Point2D option list option \<Rightarrow> path option" where
  "roomShape polygon =
     (let vps = validPoints polygon
      in if length vps < 3 then None
         else Some (map (\<lambda>q. (mapCoord (px q), - mapCoord (py q))) vps))"

text \<open>\<^verbatim>\<open>Math.round\<close> of a numeric field; an absent field converts to \<open>NaN\<close>.\<close>

definition math_round :: "jsnum option \<Rightarrow> jsnum" where
  "math_round n = (case n of Some (Fin r) \<Rightarrow> Fin (of_int \<lfloor>r + 1 / 2\<rfloor>) | _ \<Rightarrow> NaN)"

definition roomMaterial :: "bool \<Rightarrow> Material" where
  "roomMaterial isHighlighted =
     \<lparr>m_color = (if isHighlighted then ''#06b6d4'' else ''#1e293b''),
      m_opacity = (if isHighlighted then 0.9 else 1),
      m_transparent = isHighlighted,
      m_emissive = (if isHighlighted then ''#06b6d4'' else ''#000000''),
      m_emissiveIntensity = (if isHighlighted then 0.3 else 0)\<rparr>"

definition RoomFloor :: "Room \<Rightarrow> bool \<Rightarrow> RoomNode option" where
  "RoomFloor room isHighlighted =
     (case roomShape (r_polygon room) of None \<Rightarrow> None
      | Some shape \<Rightarrow>
     (case r_center room of None \<Rightarrow> None
      | Some c \<Rightarrow>
        if \<not> typeof_number (px c) \<or> \<not> typeof_number (py c) then None
        else Some
          \<lparr>rn_shape = shape,
           rn_depth = 0.1,
           rn_material = roomMaterial isHighlighted,
           rn_labelPos = (mapCoord (px c), 2.5, mapCoord (py c)),
           rn_labelHighlighted = isHighlighted,
           rn_name = r_name room,
           rn_area = math_round (r_areaSqFt room),
           rn_pickId = r_id room\<rparr>))"

section \<open>Scene composition\<close>

record Scene =
  s_walls :: "WallSolid option list"
  s_doors :: "DoorAssembly option list"
  s_rooms :: "RoomNode option list"

text \<open>
  \<^verbatim>\<open>highlightedRoomId === room.id\<close>: the selection is a string or \<^verbatim>\<open>null\<close>, the id a
  string or \<^verbatim>\<open>undefined\<close>, and \<^verbatim>\<open>null === undefined\<close> is false.
\<close>

definition strictEq :: "string option \<Rightarrow> string option \<Rightarrow> bool" where
  "strictEq highlightedRoomId rid =
     (case highlightedRoomId of None \<Rightarrow> False
      | Some h \<Rightarrow> (case rid of None \<Rightarrow> False | Some i \<Rightarrow> h = i))"

text \<open>\<^verbatim>\<open>xs?.map(f)\<close>: an absent list renders nothing.\<close>

definition orEmpty :: "'a list option \<Rightarrow> 'a list" where
  "orEmpty xs = (case xs of None \<Rightarrow> [] | Some l \<Rightarrow> l)"

text \<open>
  The three \<^verbatim>\<open>map\<close>s of \<^verbatim>\<open>SceneContent\<close>. An exception thrown while a wall renders
  is not caught anywhere in the viewer, so it is the result of the whole scene.
\<close>

definition SceneContent :: "BlueprintAnalysis \<Rightarrow> string option \<Rightarrow> js_error + Scene" where
  "SceneContent data highlightedRoomId =
     (case mapE (\<lambda>wall. WallSegment wall (doors data)) (orEmpty (walls data)) of
        Inl err \<Rightarrow> Inl err
      | Inr wallNodes \<Rightarrow>
          Inr \<lparr>s_walls = wallNodes,
               s_doors = map DoorMesh (orEmpty (doors data)),
               s_rooms = map (\<lambda>room. RoomFloor room (strictEq highlightedRoomId (r_id room)))
                             (orEmpty (rooms data))\<rparr>)"

section \<open>Observations on results\<close>

text \<open>The holes cut into a wall, the doors it hosts and its extrusion depth.\<close>

definition wallHoles :: "js_error + WallSolid option \<Rightarrow> path list" where
  "wallHoles r = (case r of Inr (Some solid) \<Rightarrow> holes (ws_shape solid) | _ \<Rightarrow> [])"

definition wallDepth :: "js_error + WallSolid option \<Rightarrow> real option" where
  "wallDepth r = (case r of Inr (Some solid) \<Rightarrow> Some (depth (ws_extrude solid)) | _ \<Rightarrow> None)"

text \<open>The ids of the doors that the door sweep of a wall keeps.\<close>

definition hostedIds :: "Wall \<Rightarrow> Door list \<Rightarrow> string option list" where
  "hostedIds wall dl =
     (case w_start wall of None \<Rightarrow> []
      | Some s \<Rightarrow>
     (case w_end wall of None \<Rightarrow> []
      | Some e \<Rightarrow>
        (case relevantDoors (worldPoint s) (worldPoint e)
                (distanceTo (worldPoint s) (worldPoint e)) (Some dl) of
           Inl err \<Rightarrow> []
         | Inr rds \<Rightarrow> map (\<lambda>r. d_id (dw_door r)) rds)))"

text \<open>The point of the segment from \<open>s\<close> to \<open>e\<close> at parameter \<open>t\<close>.\<close>

definition onSegment :: "Vector3 \<Rightarrow> Vector3 \<Rightarrow> real \<Rightarrow> Vector3" where
  "onSegment s e t = \<lparr>vx = vx s + t * (vx e - vx s), vy = vy s + t * (vy e - vy s),
                       vz = vz s + t * (vz e - vz s)\<rparr>"

text \<open>How many walls, doors and rooms of a scene produced geometry.\<close>

definition produced :: "'a option list \<Rightarrow> nat" where
  "produced xs = length (filter (\<lambda>x. x \<noteq> None) xs)"

definition sceneCounts :: "js_error + Scene \<Rightarrow> (nat \<times> nat \<times> nat) option" where
  "sceneCounts r =
     (case r of Inl err \<Rightarrow> None
      | Inr scene \<Rightarrow>
          Some (produced (s_walls scene), produced (s_doors scene), produced (s_rooms scene)))"

text \<open>A room node with the parameters that depend on the selection blanked.\<close>

definition roomGeometry :: "RoomNode \<Rightarrow> RoomNode" where
  "roomGeometry rn = rn\<lparr>rn_material := roomMaterial False, rn_labelHighlighted := False\<rparr>"

text \<open>A coordinate with \<open>NaN\<close> replaced by the plan centre \<open>50\<close>.\<close>

definition nanTo50 :: "jsval \<Rightarrow> jsval" where
  "nanTo50 v = (if v = JNum NaN then JNum (Fin 50) else v)"

definition pointNanTo50 :: "Point2D \<Rightarrow> Point2D" where
  "pointNanTo50 p = \<lparr>px = nanTo50 (px p), py = nanTo50 (py p)\<rparr>"

definition wallNanTo50 :: "Wall \<Rightarrow> Wall" where
  "wallNanTo50 w =
     w\<lparr>w_start := map_option pointNanTo50 (w_start w),
       w_end := map_option pointNanTo50 (w_end w)\<rparr>"

definition doorNanTo50 :: "Door \<Rightarrow> Door" where
  "doorNanTo50 d = d\<lparr>d_position := map_option pointNanTo50 (d_position d)\<rparr>"

section \<open>The sample plan of the application\<close>

definition pt :: "real \<Rightarrow> real \<Rightarrow> Point2D" where
  "pt a b = \<lparr>px = JNum (Fin a), py = JNum (Fin b)\<rparr>"

definition mkWall :: "string \<Rightarrow> Point2D \<Rightarrow> Point2D \<Rightarrow> real \<Rightarrow> Wall" where
  "mkWall i s e t = \<lparr>w_id = Some i, w_start = Some s, w_end = Some e, w_thickness = Some (Fin t)\<rparr>"

definition mkDoor :: "string \<Rightarrow> Point2D \<Rightarrow> real \<Rightarrow> real \<Rightarrow> Door" where
  "mkDoor i p w r =
     \<lparr>d_id = Some i, d_position = Some p, d_width = Some (Fin w), d_rotation = Some (Fin r)\<rparr>"

definition mkRoom :: "string \<Rightarrow> string \<Rightarrow> real \<Rightarrow> Point2D \<Rightarrow> Point2D list \<Rightarrow> Room" where
  "mkRoom i n a c ps =
     \<lparr>r_id = Some i, r_name = Some n, r_areaSqFt = Some (Fin a), r_center = Some c,
      r_polygon = Some (map Some ps)\<rparr>"

definition w1 :: Wall where "w1 = mkWall ''w1'' (pt 10 10) (pt 90 10) 2"
definition w2 :: Wall where "w2 = mkWall ''w2'' (pt 90 10) (pt 90 70) 2"
definition w3 :: Wall where "w3 = mkWall ''w3'' (pt 90 70) (pt 10 70) 2"
definition w4 :: Wall where "w4 = mkWall ''w4'' (pt 10 70) (pt 10 10) 2"
definition w5 :: Wall where "w5 = mkWall ''w5'' (pt 50 10) (pt 50 70) 1"
definition w6 :: Wall where "w6 = mkWall ''w6'' (pt 50 40) (pt 90 40) 1"

definition d1 :: Door where "d1 = mkDoor ''d1'' (pt 50 60) 8 0"
definition d2 :: Door where "d2 = mkDoor ''d2'' (pt 70 40) 6 90"
definition d3 :: Door where "d3 = mkDoor ''d3'' (pt 25 70) 10 0"

definition r1 :: Room where
  "r1 = mkRoom ''r1'' ''Open Office'' 400 (pt 30 40) [pt 10 10, pt 50 10, pt 50 70, pt 10 70]"
definition r2 :: Room where
  "r2 = mkRoom ''r2'' ''Meeting Room'' 250 (pt 70 25) [pt 50 10, pt 90 10, pt 90 40, pt 50 40]"
definition r3 :: Room where
  "r3 = mkRoom ''r3'' ''Lounge'' 250 (pt 70 55) [pt 50 40, pt 90 40, pt 90 70, pt 50 70]"

definition SAMPLE_DATA :: BlueprintAnalysis where
  "SAMPLE_DATA =
     \<lparr>walls = Some [w1, w2, w3, w4, w5, w6],
      doors = Some [d1, d2, d3],
      rooms = Some [r1, r2, r3]\<rparr>"

section \<open>Further inputs\<close>

text \<open>A wall along the plan's horizontal midline and one along its vertical midline.\<close>

definition wallH :: Wall where "wallH = mkWall ''a'' (pt 10 50) (pt 90 50) 2"
definition wallV :: Wall where "wallV = mkWall ''b'' (pt 50 10) (pt 50 90) 2"

text \<open>A door \<open>0.7\<close> world units off \<open>wallH\<close>, with width \<open>0\<close>.\<close>

definition doorOff :: Door where "doorOff = mkDoor ''x'' (pt 14.8 51.4) 0 0"

text \<open>A door lying on \<open>wallH\<close>, three world units from its start.\<close>

definition doorOn :: Door where "doorOn = mkDoor ''y'' (pt 16 50) 8 0"

text \<open>A door near the crossing of the two walls, nearer to \<open>wallH\<close>.\<close>

definition doorCross :: Door where "doorCross = mkDoor ''z'' (pt 51.6 51.2) 6 0"

text \<open>A door object with no \<open>position\<close>.\<close>

definition doorNoPos :: Door where
  "doorNoPos = \<lparr>d_id = Some ''q'', d_position = None, d_width = Some (Fin 6),
                d_rotation = Some (Fin 0)\<rparr>"

text \<open>A wall of thickness \<open>0\<close>, one of thickness \<open>10\<close> and one with no thickness.\<close>

definition wallThin :: Wall where "wallThin = mkWall ''t0'' (pt 10 10) (pt 90 10) 0"
definition wallThick :: Wall where "wallThick = mkWall ''t10'' (pt 10 10) (pt 90 10) 10"
definition wallNoThickness :: Wall where
  "wallNoThickness = \<lparr>w_id = Some ''t'', w_start = Some (pt 10 10), w_end = Some (pt 90 10),
                      w_thickness = None\<rparr>"

text \<open>A wall \<open>0.15\<close> plan units long, and one \<open>0.4\<close> plan units long.\<close>

definition wallShort :: Wall where "wallShort = mkWall ''s'' (pt 50 50) (pt 50.15 50) 2"
definition wallShort2 :: Wall where "wallShort2 = mkWall ''s2'' (pt 50 50) (pt 50.4 50) 2"

text \<open>A wall whose four coordinates are \<open>NaN\<close>, and a door and a room centre likewise.\<close>

definition ptNaN :: Point2D where "ptNaN = \<lparr>px = JNum NaN, py = JNum NaN\<rparr>"

definition wallNaN :: Wall where
  "wallNaN = \<lparr>w_id = Some ''n'', w_start = Some ptNaN, w_end = Some ptNaN,
              w_thickness = Some (Fin 2)\<rparr>"

definition wallHalfNaN :: Wall where
  "wallHalfNaN = \<lparr>w_id = Some ''h'', w_start = Some ptNaN, w_end = Some (pt 90 10),
                  w_thickness = Some (Fin 2)\<rparr>"

definition doorNaN :: Door where
  "doorNaN = \<lparr>d_id = Some ''n'', d_position = Some ptNaN, d_width = Some (Fin 6),
              d_rotation = Some (Fin 0)\<rparr>"

text \<open>A room with two valid vertices and a \<open>NaN\<close> one, and a room with no centre.\<close>

definition roomTwo :: Room where
  "roomTwo = \<lparr>r_id = Some ''r'', r_name = Some ''Two'', r_areaSqFt = Some (Fin 10),
              r_center = Some (pt 30 40),
              r_polygon = Some [Some (pt 10 10), Some ptNaN, None, Some (pt 50 10)]\<rparr>"

definition roomNoCenter :: Room where
  "roomNoCenter = r1\<lparr>r_center := None\<rparr>"

text \<open>The two crossing walls with the door near their crossing and a door far from both.\<close>

definition crossPlan :: BlueprintAnalysis where
  "crossPlan = \<lparr>walls = Some [wallH, wallV], doors = Some [doorCross, d2], rooms = None\<rparr>"

text \<open>A room whose centre is \<open>NaN\<close>.\<close>

definition roomNaNCenter :: Room where
  "roomNaNCenter = r1\<lparr>r_center := Some ptNaN\<rparr>"

section \<open>Basic facts\<close>

lemma typeof_number_simps [simp]:
  "typeof_number (JNum n)" "\<not> typeof_number JUndefined" "\<not> typeof_number JNull"
  "\<not> typeof_number (JBool b)" "\<not> typeof_number (JStr s)"
  by (simp_all add: typeof_number_def)

lemma mapCoord_Fin [simp]: "mapCoord (JNum (Fin v)) = (v - 50) / 2"
  by (simp add: mapCoord_def isNaN_def)

lemma mapCoord_NaN [simp]: "mapCoord (JNum NaN) = 0"
  by (simp add: mapCoord_def isNaN_def)

lemma mapCoord_not_number: "\<not> typeof_number v \<Longrightarrow> mapCoord v = 0"
  by (simp add: mapCoord_def)

lemma distanceToSquared_nonneg: "0 \<le> distanceToSquared a b"
  by (simp add: distanceToSquared_def Let_def)

lemma distanceTo_nonneg: "0 \<le> distanceTo a b"
  by (simp add: distanceTo_def distanceToSquared_nonneg)

lemma distanceTo_x: "vy a = vy b \<Longrightarrow> vz a = vz b \<Longrightarrow> distanceTo a b = \<bar>vx a - vx b\<bar>"
  by (simp add: distanceTo_def distanceToSquared_def Let_def)

lemma distanceTo_z: "vy a = vy b \<Longrightarrow> vx a = vx b \<Longrightarrow> distanceTo a b = \<bar>vz a - vz b\<bar>"
  by (simp add: distanceTo_def distanceToSquared_def Let_def)

lemma distanceTo_commute: "distanceTo a b = distanceTo b a"
  by (simp add: distanceTo_def distanceToSquared_def Let_def algebra_simps)

text \<open>Behind the degenerate-wall guard the divisor of the projection is positive.\<close>

lemma startEnd2_positive:
  "\<not> distanceToSquared s e < 0.01 \<Longrightarrow> 0 < dot (subVectors e s) (subVectors e s)"
  by (simp add: distanceToSquared_def dot_def subVectors_def Let_def algebra_simps)

lemma worldPoint_pt [simp]:
  "worldPoint (pt a b) = \<lparr>vx = (a - 50) / 2, vy = 0, vz = (b - 50) / 2\<rparr>"
  by (simp add: worldPoint_def pt_def)

lemma relevantDoors_None [simp]: "relevantDoors s e l None = Inr []"
  by (simp add: relevantDoors_def)

text \<open>What \<open>WallSegment\<close> computes once the presence checks have passed.\<close>

lemma WallSegment_numeric:
  assumes "w_start wall = Some s" "w_end wall = Some e"
    and "typeof_number (px s)" "typeof_number (py s)"
    and "typeof_number (px e)" "typeof_number (py e)"
  shows "WallSegment wall ds =
     (if distanceToSquared (worldPoint s) (worldPoint e) < 0.01 then Inr None
      else (case relevantDoors (worldPoint s) (worldPoint e)
                   (distanceTo (worldPoint s) (worldPoint e)) ds of
              Inl err \<Rightarrow> Inl err
            | Inr rds \<Rightarrow>
                Inr (Some
                  \<lparr>ws_position = worldPoint s,
                   ws_rotationY = - atan2 (vz (worldPoint e) - vz (worldPoint s))
                                         (vx (worldPoint e) - vx (worldPoint s)),
                   ws_meshZ = - wallThickness (w_thickness wall) / 2,
                   ws_shape = wallShape (distanceTo (worldPoint s) (worldPoint e)) 3 rds,
                   ws_extrude = \<lparr>depth = wallThickness (w_thickness wall),
                     bevelEnabled = True, bevelThickness = 0.02, bevelSize = 0.02,
                     bevelSegments = 2, steps = 1\<rparr>,
                   ws_color = ''#334155''\<rparr>)))"
  using assms by (simp add: WallSegment_def Let_def)

lemmas sample_walls = w1_def w2_def w3_def w4_def w5_def w6_def mkWall_def
lemmas sample_doors = d1_def d2_def d3_def mkDoor_def

section \<open>C7: the coordinate mapper\<close>

text \<open>
  C7. \<open>mapCoord\<close> sends every number \<open>v\<close> other than \<open>NaN\<close> to \<open>(v - 50) / 2\<close> and sends
  \<open>NaN\<close> and every value that is not a number (\<^verbatim>\<open>undefined\<close>, \<^verbatim>\<open>null\<close>, a string, a
  boolean) to \<open>0\<close>. Its result is a real, so it is never \<open>NaN\<close>, and the function is
  total, so it never throws. In particular \<open>50\<close> maps to \<open>0\<close>, \<open>0\<close> to \<open>-25\<close> and \<open>100\<close>
  to \<open>25\<close>.
\<close>

theorem mapCoord_contract:
  "mapCoord (JNum (Fin v)) = (v - 50) / 2 \<and> mapCoord (JNum NaN) = 0 \<and>
   mapCoord JUndefined = 0 \<and> mapCoord JNull = 0 \<and> mapCoord (JStr s) = 0 \<and>
   mapCoord (JBool b) = 0 \<and> mapCoord (JNum (Fin 50)) = 0 \<and>
   mapCoord (JNum (Fin 0)) = - 25 \<and> mapCoord (JNum (Fin 100)) = 25"
  by (simp add: mapCoord_def isNaN_def)

theorem mapCoord_contract_witness:
  "mapCoord (JNum (Fin 70)) = 10 \<and> mapCoord (JStr ''70'') = 0 \<and> mapCoord (JBool True) = 0"
  using mapCoord_contract [of 70 "''70''" True] by simp

section \<open>C2: wall thickness\<close>

text \<open>
  C2 as stated fails: a wall whose \<open>thickness\<close> is present and \<open>0\<close> is extruded with the
  default depth \<open>0.5\<close>, not with the clamped floor \<open>0.3\<close>, because the code tests the
  field for truthiness.
\<close>

theorem wall_thickness_zero_counterexample:
  "wallThickness (Some (Fin 0)) = 0.5 \<and> wallDepth (WallSegment wallThin None) = Some 0.5"
  by (simp add: wallDepth_def wallThin_def mkWall_def
      WallSegment_numeric [of _ "pt 10 10" "pt 90 10"] pt_def distanceToSquared_def
      wallThickness_def truthy_def worldPoint_def)

text \<open>
  C2, amended. Every wall that is built is extruded by \<open>clamp (thickness / 5) 0.3 1.0\<close>
  when its \<open>thickness\<close> is a number other than \<open>0\<close> and \<open>NaN\<close>, and by \<open>0.5\<close> when the
  field is absent, \<open>0\<close> or \<open>NaN\<close>. So thickness \<open>10\<close> gives depth \<open>1.0\<close>.
\<close>

theorem wall_depth_from_thickness:
  assumes "WallSegment wall ds = Inr (Some solid)"
  shows "depth (ws_extrude solid) =
     (case w_thickness wall of
        Some (Fin t) \<Rightarrow> if t = 0 then 0.5 else clamp (t / 5) 0.3 1.0
      | _ \<Rightarrow> 0.5)"
  using assms
  by (auto simp: WallSegment_def Let_def wallThickness_def truthy_def clamp_def
      split: option.splits if_splits sum.splits jsnum.splits)

theorem wall_depth_from_thickness_witness:
  "wallDepth (WallSegment wallThick None) = Some 1 \<and>
   wallDepth (WallSegment wallNoThickness None) = Some 0.5"
proof -
  obtain a where a: "WallSegment wallThick None = Inr (Some a)"
    by (simp add: wallThick_def mkWall_def WallSegment_numeric [of _ "pt 10 10" "pt 90 10"]
        pt_def distanceToSquared_def worldPoint_def)
  obtain b where b: "WallSegment wallNoThickness None = Inr (Some b)"
    by (simp add: wallNoThickness_def WallSegment_numeric [of _ "pt 10 10" "pt 90 10"]
        pt_def distanceToSquared_def worldPoint_def)
  have "depth (ws_extrude a) = 1"
    using wall_depth_from_thickness [OF a] by (simp add: wallThick_def mkWall_def clamp_def)
  moreover have "depth (ws_extrude b) = 0.5"
    using wall_depth_from_thickness [OF b] by (simp add: wallNoThickness_def)
  ultimately show ?thesis
    using a b by (simp add: wallDepth_def)
qed

section \<open>C5: degenerate walls\<close>

text \<open>
  C5 as stated fails in its second half: the guard compares the squared distance of the
  mapped (world) endpoints with \<open>0.01\<close>, and world lengths are half the plan lengths. A
  wall \<open>0.15\<close> plan units long has squared plan length \<open>0.0225\<close>, at least \<open>0.01\<close>, and
  is dropped all the same.
\<close>

theorem degenerate_wall_plan_units_counterexample:
  "(50.15 - 50)\<^sup>2 + (50 - 50)\<^sup>2 \<ge> (0.01 :: real) \<and> WallSegment wallShort None = Inr None"
  by (simp add: wallShort_def mkWall_def WallSegment_numeric [of _ "pt 50 50" "pt 50.15 50"]
      pt_def distanceToSquared_def worldPoint_def power2_eq_square)

text \<open>
  C5, amended. A wall whose four coordinates are numbers is dropped (no geometry) exactly
  when the squared distance of its mapped endpoints is below \<open>0.01\<close> world units; for
  coordinates other than \<open>NaN\<close> that is a squared plan distance below \<open>0.04\<close>. Every other
  such wall is not dropped.
\<close>

theorem degenerate_wall_threshold:
  assumes "w_start wall = Some s" "w_end wall = Some e"
    and "typeof_number (px s)" "typeof_number (py s)"
    and "typeof_number (px e)" "typeof_number (py e)"
  shows "(WallSegment wall ds = Inr None)
           = (distanceToSquared (worldPoint s) (worldPoint e) < 0.01) \<and>
         (s = pt x1 y1 \<and> e = pt x2 y2 \<longrightarrow>
            (WallSegment wall ds = Inr None) = ((x1 - x2)\<^sup>2 + (y1 - y2)\<^sup>2 < 0.04))"
proof -
  have drop: "(WallSegment wall ds = Inr None)
                = (distanceToSquared (worldPoint s) (worldPoint e) < 0.01)"
    using assms by (simp add: WallSegment_numeric split: sum.splits)
  have dx: "(a - 50) / 2 - (b - 50) / 2 = (a - b) / 2" for a b :: real
    by (simp add: field_simps)
  have "distanceToSquared (worldPoint (pt x1 y1)) (worldPoint (pt x2 y2))
          = ((x1 - x2)\<^sup>2 + (y1 - y2)\<^sup>2) / 4"
    by (simp add: distanceToSquared_def dx power2_eq_square add_divide_distrib)
  with drop show ?thesis by auto
qed

theorem degenerate_wall_threshold_witness:
  "WallSegment wallShort2 None \<noteq> Inr None \<and> WallSegment wallShort (Some [d1]) = Inr None"
proof -
  have num: "typeof_number (px (pt a b))" "typeof_number (py (pt a b))" for a b
    by (simp_all add: pt_def)
  have s2: "w_start wallShort2 = Some (pt 50 50)" "w_end wallShort2 = Some (pt 50.4 50)"
    by (simp_all add: wallShort2_def mkWall_def)
  have s1: "w_start wallShort = Some (pt 50 50)" "w_end wallShort = Some (pt 50.15 50)"
    by (simp_all add: wallShort_def mkWall_def)
  have "(WallSegment wallShort2 None = Inr None)
          = ((50 - 50.4)\<^sup>2 + (50 - 50)\<^sup>2 < (0.04 :: real))"
    using degenerate_wall_threshold [OF s2 num num, of None 50 50 "50.4" 50] by blast
  moreover have "(WallSegment wallShort (Some [d1]) = Inr None)
          = ((50 - 50.15)\<^sup>2 + (50 - 50)\<^sup>2 < (0.04 :: real))"
    using degenerate_wall_threshold [OF s1 num num, of "Some [d1]" 50 50 "50.15" 50] by blast
  ultimately show ?thesis
    by (simp add: power2_eq_square)
qed

section \<open>C3: exceptions\<close>

text \<open>
  C3 fails on the code. \<open>DoorMesh\<close> guards an absent door position and renders nothing,
  but the door sweep of \<open>WallSegment\<close> reads \<^verbatim>\<open>door.position.x\<close> with no guard: for a
  wall that passes its own checks and a door list holding a door with no \<open>position\<close> it
  throws a \<^verbatim>\<open>TypeError\<close>, and so does the scene.
\<close>

theorem door_sweep_throws_on_missing_position:
  "WallSegment w1 (Some [doorNoPos]) = Inl TypeError \<and> DoorMesh doorNoPos = None \<and>
   SceneContent \<lparr>walls = Some [w1], doors = Some [doorNoPos], rooms = None\<rparr> None
     = Inl TypeError"
  by (simp add: w1_def mkWall_def WallSegment_numeric [of _ "pt 10 10" "pt 90 10"] pt_def
      distanceToSquared_def worldPoint_def relevantDoors_def doorFilter_def doorPos_def
      doorNoPos_def DoorMesh_def SceneContent_def orEmpty_def)

theorem door_sweep_throws_on_missing_position_witness:
  "WallSegment w1 (Some [doorNoPos]) = Inl TypeError"
  by (rule conjunct1 [OF door_sweep_throws_on_missing_position])

section \<open>The door sweep of a wall\<close>

lemma filterE_total:
  "(\<And>x. x \<in> set xs \<Longrightarrow> \<exists>b. p x = Inr b) \<Longrightarrow>
     filterE p xs = Inr (filter (\<lambda>x. p x = Inr True) xs)"
proof (induction xs)
  case Nil
  then show ?case by simp
next
  case (Cons a xs)
  then obtain b where b: "p a = Inr b" by auto
  have "filterE p xs = Inr (filter (\<lambda>x. p x = Inr True) xs)"
    using Cons by simp
  with b show ?case by simp
qed

lemma filterE_Inr:
  "filterE p xs = Inr ys \<Longrightarrow> ys = filter (\<lambda>x. p x = Inr True) xs"
  by (induction xs arbitrary: ys) (auto split: sum.splits)

lemma filterE_Inl:
  "x \<in> set xs \<Longrightarrow> p x = Inl e \<Longrightarrow> \<exists>e'. filterE p xs = Inl e'"
  by (induction xs) (auto split: sum.splits)

lemma mapE_total:
  "(\<And>x. x \<in> set xs \<Longrightarrow> \<exists>y. f x = Inr y) \<Longrightarrow> \<exists>ys. mapE f xs = Inr ys"
proof (induction xs)
  case Nil
  then show ?case by simp
next
  case (Cons a xs)
  then obtain y where y: "f a = Inr y" by auto
  obtain ys where "mapE f xs = Inr ys" using Cons by auto
  with y show ?case by simp
qed

lemma mapE_Inr:
  "mapE f xs = Inr ys \<Longrightarrow> list_all2 (\<lambda>x y. f x = Inr y) xs ys"
  by (induction xs arbitrary: ys) (auto split: sum.splits)

lemma withDist_door: "withDist s d = Inr r \<Longrightarrow> dw_door r = d"
  by (auto simp: withDist_def split: sum.splits)

lemma mapE_withDist_doors:
  "mapE (withDist s) xs = Inr rds \<Longrightarrow> map dw_door rds = xs"
  by (induction xs arbitrary: rds) (auto split: sum.splits dest: withDist_door)

lemma relevantDoors_Inr:
  assumes "relevantDoors s e l ds = Inr rds"
  shows "map dw_door rds = filter (\<lambda>d. doorFilter s e l d = Inr True) (orEmpty ds)"
proof (cases ds)
  case None
  with assms show ?thesis by (simp add: orEmpty_def)
next
  case (Some dl)
  with assms obtain kept where k: "filterE (doorFilter s e l) dl = Inr kept"
    and m: "mapE (withDist s) kept = Inr rds"
    by (auto simp: relevantDoors_def split: sum.splits)
  from filterE_Inr [OF k] mapE_withDist_doors [OF m] Some show ?thesis
    by (simp add: orEmpty_def)
qed

lemma doorFilter_Some:
  "d_position x = Some p \<Longrightarrow> doorFilter s e l x = Inr (onWall s e l (worldPoint p))"
  by (simp add: doorFilter_def doorPos_def)

lemma withDist_Some:
  "d_position x = Some p \<Longrightarrow>
     withDist s x = Inr \<lparr>dw_door = x, distFromStart = distanceTo s (worldPoint p)\<rparr>"
  by (simp add: withDist_def doorPos_def)

lemma relevantDoors_total:
  assumes "\<And>x. x \<in> set dl \<Longrightarrow> d_position x \<noteq> None"
  shows "\<exists>rds. relevantDoors s e l (Some dl) = Inr rds"
proof -
  have "\<exists>b. doorFilter s e l x = Inr b" if "x \<in> set dl" for x
    using assms [OF that] doorFilter_Some [of x] by auto
  then have f: "filterE (doorFilter s e l) dl
                  = Inr (filter (\<lambda>x. doorFilter s e l x = Inr True) dl)"
    by (rule filterE_total)
  have "\<exists>y. withDist s x = Inr y"
    if "x \<in> set (filter (\<lambda>x. doorFilter s e l x = Inr True) dl)" for x
  proof -
    from that have "x \<in> set dl" by simp
    from assms [OF this] withDist_Some [of x] show ?thesis by auto
  qed
  then have "\<exists>rds. mapE (withDist s) (filter (\<lambda>x. doorFilter s e l x = Inr True) dl) = Inr rds"
    by (rule mapE_total)
  with f show ?thesis by (auto simp: relevantDoors_def)
qed

lemma relevantDoors_member:
  assumes "relevantDoors s e l ds = Inr rds" and "r \<in> set rds"
  shows "withDist s (dw_door r) = Inr r"
proof (cases ds)
  case None
  with assms show ?thesis by simp
next
  case (Some dl)
  with assms obtain kept where m: "mapE (withDist s) kept = Inr rds"
    by (auto simp: relevantDoors_def split: sum.splits)
  from mapE_Inr [OF m] have la: "list_all2 (\<lambda>x y. withDist s x = Inr y) kept rds" .
  from assms(2) obtain i where i: "i < length rds" "rds ! i = r"
    by (auto simp: in_set_conv_nth)
  with la have "withDist s (kept ! i) = Inr r"
    by (auto simp: list_all2_conv_all_nth)
  then show ?thesis by (simp add: withDist_door [of s "kept ! i" r])
qed

lemma distanceTo_zero: "distanceTo a b = 0 \<Longrightarrow> a = b"
proof -
  assume "distanceTo a b = 0"
  then have "(vx a - vx b) * (vx a - vx b) + (vy a - vy b) * (vy a - vy b)
             + (vz a - vz b) * (vz a - vz b) = 0"
    by (simp add: distanceTo_def distanceToSquared_def Let_def)
  then have "vx a = vx b \<and> vy a = vy b \<and> vz a = vz b"
    by (smt (verit) zero_le_square mult_eq_0_iff)
  then show ?thesis by simp
qed

lemma doorHole_centered:
  "doorHole \<lparr>dw_door = door, distFromStart = d\<rparr> =
     (let w = or_default (d_width door) 6 * 0.5
      in [(d - w / 2, 0), (d + w / 2, 0), (d + w / 2, 2.2), (d - w / 2, 2.2)])"
  by (simp add: doorHole_def Let_def)

lemmas geometry_defs = onWall_def closestPointToPoint_def closestPointToPointParameter_def
  subVectors_def dot_def clamp_def Let_def

lemmas sweep_defs = relevantDoors_def doorFilter_def doorPos_def withDist_def

lemma pt_numeric: "typeof_number (px (pt a b))" "typeof_number (py (pt a b))"
  by (simp_all add: pt_def)

lemma WallSegment_total:
  assumes "w_start wall = Some s" "w_end wall = Some e"
    and "typeof_number (px s)" "typeof_number (py s)"
    and "typeof_number (px e)" "typeof_number (py e)"
    and "\<not> distanceToSquared (worldPoint s) (worldPoint e) < 0.01"
    and "\<forall>x \<in> set dl. d_position x \<noteq> None"
  shows "\<exists>solid. WallSegment wall (Some dl) = Inr (Some solid)"
proof -
  obtain rds where "relevantDoors (worldPoint s) (worldPoint e)
      (distanceTo (worldPoint s) (worldPoint e)) (Some dl) = Inr rds"
    using relevantDoors_total [of dl] assms(8) by blast
  then show ?thesis
    using assms(7) by (simp add: WallSegment_numeric [OF assms(1-6)])
qed

lemma SceneContent_wall:
  assumes "SceneContent data h = Inr scene" and "i < length (orEmpty (walls data))"
  shows "WallSegment (orEmpty (walls data) ! i) (doors data) = Inr (s_walls scene ! i)"
proof -
  from assms(1) have "mapE (\<lambda>wall. WallSegment wall (doors data)) (orEmpty (walls data))
      = Inr (s_walls scene)"
    by (auto simp: SceneContent_def split: sum.splits)
  from mapE_Inr [OF this] assms(2) show ?thesis
    by (simp add: list_all2_conv_all_nth)
qed

lemma doorFilter_True_iff:
  "(doorFilter s e l d = Inr True) =
     (case d_position d of None \<Rightarrow> False
      | Some p \<Rightarrow>
          distanceTo (closestPointToPoint s e (worldPoint p) True) (worldPoint p) \<le> 1 \<and>
          0.5 < distanceTo (closestPointToPoint s e (worldPoint p) True) s \<and>
          distanceTo (closestPointToPoint s e (worldPoint p) True) s < l - 0.5)"
  by (cases "d_position d")
     (auto simp: doorFilter_def doorPos_def onWall_def Let_def)

text \<open>The closest point that three.js computes is the nearest point of the segment.\<close>

lemma quad_min:
  fixes a b c t t0 :: real
  assumes a: "0 < a" and t: "0 \<le> t" "t \<le> 1" and t0: "t0 = max 0 (min 1 (b / a))"
  shows "a * t0 * t0 - 2 * b * t0 \<le> a * t * t - 2 * b * t"
proof -
  define u where "u = b / a"
  have b: "b = a * u" using a by (simp add: u_def)
  have diff: "(a * t * t - 2 * b * t) - (a * t0 * t0 - 2 * b * t0)
                = a * ((t - t0) * (t + t0 - 2 * u))"
    unfolding b by (simp add: algebra_simps)
  have "0 \<le> (t - t0) * (t + t0 - 2 * u)"
  proof -
    consider "u < 0" | "0 \<le> u" "u \<le> 1" | "1 < u" by linarith
    then show ?thesis
    proof cases
      case 1
      then have "t0 = 0" using t0 by (simp add: u_def)
      with 1 t show ?thesis by simp
    next
      case 2
      then have "t0 = u" using t0 by (simp add: u_def)
      then have "(t - t0) * (t + t0 - 2 * u) = (t - u) * (t - u)" by simp
      then show ?thesis by simp
    next
      case 3
      then have "t0 = 1" using t0 by (simp add: u_def)
      with 3 t show ?thesis by (simp add: mult_nonpos_nonpos)
    qed
  qed
  with a have "0 \<le> a * ((t - t0) * (t + t0 - 2 * u))" by simp
  with diff show ?thesis by linarith
qed

lemma distSq_onSegment:
  "distanceToSquared (onSegment s e t) q
     = dot (subVectors e s) (subVectors e s) * t * t
       - 2 * dot (subVectors e s) (subVectors q s) * t
       + distanceToSquared s q"
  by (simp add: distanceToSquared_def onSegment_def dot_def subVectors_def Let_def algebra_simps)

lemma closest_onSegment:
  "closestPointToPoint s e q True
     = onSegment s e (max 0 (min 1 (dot (subVectors e s) (subVectors q s)
                                      / dot (subVectors e s) (subVectors e s))))"
  by (simp add: closestPointToPoint_def closestPointToPointParameter_def onSegment_def
      clamp_def Let_def subVectors_def algebra_simps)

lemma closestPointToPoint_nearest:
  assumes "0 < dot (subVectors e s) (subVectors e s)" "0 \<le> t" "t \<le> 1"
  shows "distanceTo (closestPointToPoint s e q True) q \<le> distanceTo (onSegment s e t) q"
proof -
  have "distanceToSquared (closestPointToPoint s e q True) q
          \<le> distanceToSquared (onSegment s e t) q"
    unfolding closest_onSegment distSq_onSegment
    using quad_min [OF assms(1) assms(2) assms(3) refl, of "dot (subVectors e s) (subVectors q s)"]
    by simp
  then show ?thesis by (simp add: distanceTo_def)
qed

lemma sqrt_25_4: "sqrt (25 / 4) = 5 / 2"
  by (rule real_sqrt_unique) (simp_all add: power2_eq_square)

section \<open>C1: the hole a hosted door cuts\<close>

text \<open>
  C1 as stated fails. For the wall from \<open>(10,50)\<close> to \<open>(90,50)\<close> (world length \<open>40\<close>) and a
  door of width \<open>0\<close> at \<open>(14.8,51.4)\<close>, the perpendicular distance is \<open>0.7\<close> and the
  projected distance along the wall is \<open>2.4\<close>, so the door is accepted; the claim asks
  for a hole centred at \<open>2.4\<close> of width \<open>(0 ?? 6) * 0.5 = 0\<close>. The profile's only hole
  spans \<open>1\<close> to \<open>4\<close>: it is centred at \<open>2.5\<close>, the straight-line distance from the
  wall's start to the door, and its width is \<open>3\<close>, since \<^verbatim>\<open>door.width || 6\<close> replaces a
  width of \<open>0\<close> by \<open>6\<close>.
\<close>

theorem hole_centre_and_width_counterexample:
  "distanceTo (closestPointToPoint (worldPoint (pt 10 50)) (worldPoint (pt 90 50))
       (worldPoint (pt 14.8 51.4)) True) (worldPoint (pt 14.8 51.4)) = 0.7 \<and>
   distanceTo (closestPointToPoint (worldPoint (pt 10 50)) (worldPoint (pt 90 50))
       (worldPoint (pt 14.8 51.4)) True) (worldPoint (pt 10 50)) = 2.4 \<and>
   distanceTo (worldPoint (pt 10 50)) (worldPoint (pt 90 50)) = 40 \<and>
   d_width doorOff = Some (Fin 0) \<and>
   wallHoles (WallSegment wallH (Some [doorOff]))
     = [[(1, 0), (4, 0), (4, 2.2), (1, 2.2)]]"
proof -
  have raw: "distanceTo \<lparr>vx = - 20, vy = 0, vz = 0\<rparr>
               \<lparr>vx = - (88 / 5), vy = 0, vz = 7 / 10\<rparr> = 5 / 2"
    by (simp add: distanceTo_def distanceToSquared_def sqrt_25_4)
  have ws: "w_start wallH = Some (pt 10 50)" and we: "w_end wallH = Some (pt 90 50)"
    by (simp_all add: wallH_def mkWall_def)
  have num: "typeof_number (px (pt a b))" "typeof_number (py (pt a b))" for a b
    by (simp_all add: pt_def)
  show ?thesis
    by (simp add: WallSegment_numeric [OF ws we num num] wallHoles_def doorOff_def mkDoor_def
       sweep_defs geometry_defs distanceTo_x distanceTo_z raw distanceToSquared_def
       wallShape_def doorHole_def or_default_def)
qed

text \<open>
  C1, amended. Take a wall whose four coordinates are numbers and which is not
  degenerate, of world length \<open>L\<close>, and a door list whose doors all have a position. For
  every door of the list whose world position lies on the wall segment (perpendicular
  distance \<open>0\<close>) at distance \<open>d\<close> from the wall's start with \<open>0.5 < d < L - 0.5\<close>, the
  wall is built and its profile contains the rectangular hole centred at \<open>d\<close>, of width
  \<open>(door.width || 6) * 0.5\<close> (the default \<open>6\<close> also replaces a width of \<open>0\<close> or \<open>NaN\<close>)
  and height \<open>2.2\<close>, with its bottom edge on the floor line. The profile has one hole
  for each accepted entry of the door list; when the door is the only entry, this hole
  is the only one.
\<close>

theorem door_on_wall_cuts_one_hole:
  assumes ws: "w_start wall = Some s" and we: "w_end wall = Some e"
    and num: "typeof_number (px s)" "typeof_number (py s)"
             "typeof_number (px e)" "typeof_number (py e)"
    and nd: "\<not> distanceToSquared (worldPoint s) (worldPoint e) < 0.01"
    and pos: "\<forall>x \<in> set dl. d_position x \<noteq> None"
    and mem: "door \<in> set dl" and dp: "d_position door = Some p"
    and perp: "distanceTo (closestPointToPoint (worldPoint s) (worldPoint e) (worldPoint p) True)
                 (worldPoint p) = 0"
    and d: "d = distanceTo (closestPointToPoint (worldPoint s) (worldPoint e) (worldPoint p) True)
                 (worldPoint s)"
    and lo: "0.5 < d" and hi: "d < distanceTo (worldPoint s) (worldPoint e) - 0.5"
    and w: "w = or_default (d_width door) 6 * 0.5"
  shows "\<exists>solid. WallSegment wall (Some dl) = Inr (Some solid) \<and>
           [(d - w / 2, 0), (d + w / 2, 0), (d + w / 2, 2.2), (d - w / 2, 2.2)]
             \<in> set (holes (ws_shape solid)) \<and>
           length (holes (ws_shape solid))
             = length (filter (\<lambda>x. doorFilter (worldPoint s) (worldPoint e)
                          (distanceTo (worldPoint s) (worldPoint e)) x = Inr True) dl) \<and>
           (dl = [door] \<longrightarrow> holes (ws_shape solid)
              = [[(d - w / 2, 0), (d + w / 2, 0), (d + w / 2, 2.2), (d - w / 2, 2.2)]])"
proof -
  let ?S = "worldPoint s" and ?E = "worldPoint e" and ?P = "worldPoint p"
  let ?L = "distanceTo ?S ?E"
  let ?hole = "[(d - w / 2, 0), (d + w / 2, 0), (d + w / 2, 2.2), (d - w / 2, 2.2)]"
  from pos obtain rds where rd: "relevantDoors ?S ?E ?L (Some dl) = Inr rds"
    using relevantDoors_total [of dl ?S ?E ?L] by auto
  define solid where "solid =
     \<lparr>ws_position = ?S,
      ws_rotationY = - atan2 (vz ?E - vz ?S) (vx ?E - vx ?S),
      ws_meshZ = - wallThickness (w_thickness wall) / 2,
      ws_shape = wallShape ?L 3 rds,
      ws_extrude = \<lparr>depth = wallThickness (w_thickness wall),
        bevelEnabled = True, bevelThickness = 0.02, bevelSize = 0.02,
        bevelSegments = 2, steps = 1\<rparr>,
      ws_color = ''#334155''\<rparr>"
  have seg: "WallSegment wall (Some dl) = Inr (Some solid)"
    using nd rd by (simp add: WallSegment_numeric [OF ws we num] solid_def)
  have hs: "holes (ws_shape solid) = map doorHole rds"
    by (simp add: solid_def wallShape_def)
  have doors: "map dw_door rds = filter (\<lambda>x. doorFilter ?S ?E ?L x = Inr True) dl"
    using relevantDoors_Inr [OF rd] by (simp add: orEmpty_def)
  have cl: "closestPointToPoint ?S ?E ?P True = ?P"
    using perp by (rule distanceTo_zero)
  have dist: "distanceTo ?S ?P = d"
    using d cl by (simp add: distanceTo_commute)
  have "onWall ?S ?E ?L ?P"
    using cl lo hi d perp by (simp add: onWall_def Let_def)
  then have acc: "doorFilter ?S ?E ?L door = Inr True"
    by (simp add: doorFilter_Some [OF dp])
  with mem doors have "door \<in> set (map dw_door rds)" by simp
  then obtain r where r: "r \<in> set rds" "dw_door r = door" by auto
  from relevantDoors_member [OF rd r(1)] r(2) dist
  have "r = \<lparr>dw_door = door, distFromStart = d\<rparr>"
    by (simp add: withDist_Some [OF dp])
  then have "doorHole r = ?hole"
    by (simp add: doorHole_centered w Let_def)
  with r(1) have inh: "?hole \<in> set (holes (ws_shape solid))"
    unfolding hs by force
  have len: "length (holes (ws_shape solid))
               = length (filter (\<lambda>x. doorFilter ?S ?E ?L x = Inr True) dl)"
    unfolding hs doors [symmetric] by simp
  have single: "holes (ws_shape solid) = [?hole]" if "dl = [door]"
  proof -
    from that acc len have "length (holes (ws_shape solid)) = 1" by simp
    with inh show ?thesis
      by (cases "holes (ws_shape solid)") auto
  qed
  from seg inh len single show ?thesis by blast
qed

theorem door_on_wall_cuts_one_hole_witness:
  "wallHoles (WallSegment wallH (Some [doorOn])) = [[(1, 0), (5, 0), (5, 2.2), (1, 2.2)]]"
proof -
  have ws: "w_start wallH = Some (pt 10 50)" and we: "w_end wallH = Some (pt 90 50)"
    by (simp_all add: wallH_def mkWall_def)
  have num: "typeof_number (px (pt a b))" "typeof_number (py (pt a b))" for a b
    by (simp_all add: pt_def)
  have nd: "\<not> distanceToSquared (worldPoint (pt 10 50)) (worldPoint (pt 90 50)) < 0.01"
    by (simp add: distanceToSquared_def)
  have pos: "\<forall>x \<in> set [doorOn]. d_position x \<noteq> None"
    by (simp add: doorOn_def mkDoor_def)
  have mem: "doorOn \<in> set [doorOn]" by simp
  have dp: "d_position doorOn = Some (pt 16 50)"
    by (simp add: doorOn_def mkDoor_def)
  have cl: "closestPointToPoint (worldPoint (pt 10 50)) (worldPoint (pt 90 50))
              (worldPoint (pt 16 50)) True = worldPoint (pt 16 50)"
    by (simp add: geometry_defs)
  have perp: "distanceTo (closestPointToPoint (worldPoint (pt 10 50)) (worldPoint (pt 90 50))
                 (worldPoint (pt 16 50)) True) (worldPoint (pt 16 50)) = 0"
    unfolding cl by (simp add: distanceTo_x)
  have d: "3 = distanceTo (closestPointToPoint (worldPoint (pt 10 50)) (worldPoint (pt 90 50))
                 (worldPoint (pt 16 50)) True) (worldPoint (pt 10 50))"
    unfolding cl by (simp add: distanceTo_x)
  have lo: "0.5 < (3 :: real)" by simp
  have hi: "3 < distanceTo (worldPoint (pt 10 50)) (worldPoint (pt 90 50)) - 0.5"
    by (simp add: distanceTo_x)
  have w: "4 = or_default (d_width doorOn) 6 * 0.5"
    by (simp add: doorOn_def mkDoor_def or_default_def)
  from door_on_wall_cuts_one_hole [OF ws we num num nd pos mem dp perp d lo hi w]
  obtain solid where "WallSegment wallH (Some [doorOn]) = Inr (Some solid)"
    and "holes (ws_shape solid)
           = [[(3 - 4 / 2, 0), (3 + 4 / 2, 0), (3 + 4 / 2, 2.2), (3 - 4 / 2, 2.2)]]"
    by blast
  then show ?thesis
    by (simp add: wallHoles_def)
qed

section \<open>C4: which walls host a door\<close>

text \<open>
  C4 as stated fails: nothing in the code picks the nearest wall. Every wall sweeps the
  whole door list on its own, so a door near two walls is cut into both. The door at
  \<open>(51.6,51.2)\<close> is \<open>0.6\<close> world units from the horizontal wall and \<open>0.8\<close> from the
  vertical one; both walls host it (and not the far door \<open>d2\<close>) and each gets a hole.
\<close>

theorem door_hosted_by_two_walls_counterexample:
  "distanceTo (closestPointToPoint (worldPoint (pt 10 50)) (worldPoint (pt 90 50))
       (worldPoint (pt 51.6 51.2)) True) (worldPoint (pt 51.6 51.2)) = 0.6 \<and>
   distanceTo (closestPointToPoint (worldPoint (pt 50 10)) (worldPoint (pt 50 90))
       (worldPoint (pt 51.6 51.2)) True) (worldPoint (pt 51.6 51.2)) = 0.8 \<and>
   hostedIds wallH [doorCross, d2] = [Some ''z''] \<and>
   hostedIds wallV [doorCross, d2] = [Some ''z''] \<and>
   length (wallHoles (WallSegment wallH (Some [doorCross, d2]))) = 1 \<and>
   length (wallHoles (WallSegment wallV (Some [doorCross, d2]))) = 1"
proof -
  have h: "w_start wallH = Some (pt 10 50)" "w_end wallH = Some (pt 90 50)"
    and v: "w_start wallV = Some (pt 50 10)" "w_end wallV = Some (pt 50 90)"
    by (simp_all add: wallH_def wallV_def mkWall_def)
  show ?thesis
    by (simp add: hostedIds_def h v WallSegment_numeric [OF h pt_numeric pt_numeric]
       WallSegment_numeric [OF v pt_numeric pt_numeric]
       wallHoles_def doorCross_def sample_doors
       sweep_defs geometry_defs distanceTo_x distanceTo_z distanceToSquared_def
       wallShape_def)
qed

text \<open>
  C4, amended. Hosting is decided for each pair of a door and a wall on its own: in a
  scene, the holes of a wall that is built are those of exactly the doors of the door
  list that have a position whose distance to the closest point of the wall's segment
  is at most \<open>1.0\<close> world units and whose closest point lies more than \<open>0.5\<close> from the
  wall's start and less than \<open>L - 0.5\<close> from it, \<open>L\<close> being the wall's world length; there
  is one hole for each such door, in the order of the list. The closest point is a point
  of the segment and no point of the segment is nearer to the door. A door may be hosted
  by several walls.
\<close>

theorem door_hosting_is_per_wall:
  assumes sc: "SceneContent data h = Inr scene"
    and i: "i < length (orEmpty (walls data))"
    and so: "s_walls scene ! i = Some solid"
    and ws: "w_start (orEmpty (walls data) ! i) = Some s"
    and we: "w_end (orEmpty (walls data) ! i) = Some e"
  shows "(\<exists>rds. holes (ws_shape solid) = map doorHole rds \<and>
           length (holes (ws_shape solid)) = length rds \<and>
           map dw_door rds
             = filter (\<lambda>d. case d_position d of None \<Rightarrow> False
                 | Some p \<Rightarrow>
                     distanceTo (closestPointToPoint (worldPoint s) (worldPoint e)
                                   (worldPoint p) True) (worldPoint p) \<le> 1 \<and>
                     0.5 < distanceTo (closestPointToPoint (worldPoint s) (worldPoint e)
                                   (worldPoint p) True) (worldPoint s) \<and>
                     distanceTo (closestPointToPoint (worldPoint s) (worldPoint e)
                                   (worldPoint p) True) (worldPoint s)
                       < distanceTo (worldPoint s) (worldPoint e) - 0.5)
                 (orEmpty (doors data))) \<and>
         (\<forall>q. (\<exists>t. 0 \<le> t \<and> t \<le> 1 \<and>
                  closestPointToPoint (worldPoint s) (worldPoint e) q True
                    = onSegment (worldPoint s) (worldPoint e) t) \<and>
              (\<forall>t. 0 \<le> t \<and> t \<le> 1 \<longrightarrow>
                  distanceTo (closestPointToPoint (worldPoint s) (worldPoint e) q True) q
                    \<le> distanceTo (onSegment (worldPoint s) (worldPoint e) t) q))"
proof -
  let ?w = "orEmpty (walls data) ! i"
  let ?S = "worldPoint s" and ?E = "worldPoint e"
  have seg: "WallSegment ?w (doors data) = Inr (Some solid)"
    using SceneContent_wall [OF sc i] so by simp
  then obtain rds where rd: "relevantDoors ?S ?E (distanceTo ?S ?E) (doors data) = Inr rds"
    and hs: "holes (ws_shape solid) = map doorHole rds"
    and nd: "\<not> distanceToSquared ?S ?E < 0.01"
    using ws we
    by (auto simp: WallSegment_def Let_def wallShape_def split: if_splits sum.splits)
  have "map dw_door rds
          = filter (\<lambda>d. doorFilter ?S ?E (distanceTo ?S ?E) d = Inr True) (orEmpty (doors data))"
    by (rule relevantDoors_Inr [OF rd])
  then have hosted: "\<exists>rds. holes (ws_shape solid) = map doorHole rds \<and>
           length (holes (ws_shape solid)) = length rds \<and>
           map dw_door rds
             = filter (\<lambda>d. case d_position d of None \<Rightarrow> False
                 | Some p \<Rightarrow>
                     distanceTo (closestPointToPoint ?S ?E (worldPoint p) True) (worldPoint p) \<le> 1 \<and>
                     0.5 < distanceTo (closestPointToPoint ?S ?E (worldPoint p) True) ?S \<and>
                     distanceTo (closestPointToPoint ?S ?E (worldPoint p) True) ?S
                       < distanceTo ?S ?E - 0.5)
                 (orEmpty (doors data))"
    using hs unfolding doorFilter_True_iff by (intro exI [of _ rds]) simp
  have pos: "0 < dot (subVectors ?E ?S) (subVectors ?E ?S)"
    using nd by (rule startEnd2_positive)
  have on: "\<exists>t. 0 \<le> t \<and> t \<le> 1 \<and> closestPointToPoint ?S ?E q True = onSegment ?S ?E t" for q
    unfolding closest_onSegment
    by (intro exI [of _ "max 0 (min 1 (dot (subVectors ?E ?S) (subVectors q ?S)
                                      / dot (subVectors ?E ?S) (subVectors ?E ?S)))"]) simp
  have near: "distanceTo (closestPointToPoint ?S ?E q True) q \<le> distanceTo (onSegment ?S ?E t) q"
    if "0 \<le> t \<and> t \<le> 1" for q t
    using closestPointToPoint_nearest [OF pos] that by blast
  from hosted on near show ?thesis by blast
qed

theorem door_hosting_is_per_wall_witness:
  "\<exists>scene a b ra rb. SceneContent crossPlan None = Inr scene \<and>
      s_walls scene ! 0 = Some a \<and> holes (ws_shape a) = map doorHole ra \<and>
      map dw_door ra = [doorCross] \<and>
      s_walls scene ! 1 = Some b \<and> holes (ws_shape b) = map doorHole rb \<and>
      map dw_door rb = [doorCross]"
proof -
  have h: "w_start wallH = Some (pt 10 50)" "w_end wallH = Some (pt 90 50)"
    and v: "w_start wallV = Some (pt 50 10)" "w_end wallV = Some (pt 50 90)"
    by (simp_all add: wallH_def wallV_def mkWall_def)
  have pos: "\<forall>x \<in> set [doorCross, d2]. d_position x \<noteq> None"
    by (simp add: doorCross_def sample_doors)
  have ndh: "\<not> distanceToSquared (worldPoint (pt 10 50)) (worldPoint (pt 90 50)) < 0.01"
    and ndv: "\<not> distanceToSquared (worldPoint (pt 50 10)) (worldPoint (pt 50 90)) < 0.01"
    by (simp_all add: distanceToSquared_def)
  obtain a where a: "WallSegment wallH (Some [doorCross, d2]) = Inr (Some a)"
    using WallSegment_total [OF h pt_numeric pt_numeric ndh pos] by blast
  obtain b where b: "WallSegment wallV (Some [doorCross, d2]) = Inr (Some b)"
    using WallSegment_total [OF v pt_numeric pt_numeric ndv pos] by blast
  define scene where "scene = \<lparr>s_walls = [Some a, Some b],
     s_doors = [DoorMesh doorCross, DoorMesh d2], s_rooms = []\<rparr>"
  have sc: "SceneContent crossPlan None = Inr scene"
    by (simp add: SceneContent_def crossPlan_def orEmpty_def a b scene_def)
  have i0: "0 < length (orEmpty (walls crossPlan))"
    and i1: "1 < length (orEmpty (walls crossPlan))"
    by (simp_all add: crossPlan_def orEmpty_def)
  have so0: "s_walls scene ! 0 = Some a" and so1: "s_walls scene ! 1 = Some b"
    by (simp_all add: scene_def)
  have w0: "w_start (orEmpty (walls crossPlan) ! 0) = Some (pt 10 50)"
    "w_end (orEmpty (walls crossPlan) ! 0) = Some (pt 90 50)"
    and w1: "w_start (orEmpty (walls crossPlan) ! 1) = Some (pt 50 10)"
    "w_end (orEmpty (walls crossPlan) ! 1) = Some (pt 50 90)"
    by (simp_all add: crossPlan_def orEmpty_def h v)
  let ?P = "\<lambda>s e d. case d_position d of None \<Rightarrow> False
                 | Some p \<Rightarrow>
                     distanceTo (closestPointToPoint (worldPoint s) (worldPoint e)
                                   (worldPoint p) True) (worldPoint p) \<le> 1 \<and>
                     0.5 < distanceTo (closestPointToPoint (worldPoint s) (worldPoint e)
                                   (worldPoint p) True) (worldPoint s) \<and>
                     distanceTo (closestPointToPoint (worldPoint s) (worldPoint e)
                                   (worldPoint p) True) (worldPoint s)
                       < distanceTo (worldPoint s) (worldPoint e) - 0.5"
  have dl: "orEmpty (doors crossPlan) = [doorCross, d2]"
    by (simp add: crossPlan_def orEmpty_def)
  have fa: "filter (?P (pt 10 50) (pt 90 50)) [doorCross, d2] = [doorCross]"
    by (simp add: doorCross_def sample_doors geometry_defs distanceTo_x distanceTo_z)
  have fb: "filter (?P (pt 50 10) (pt 50 90)) [doorCross, d2] = [doorCross]"
    by (simp add: doorCross_def sample_doors geometry_defs distanceTo_x distanceTo_z)
  from door_hosting_is_per_wall [OF sc i0 so0 w0] obtain ra where
    ha: "holes (ws_shape a) = map doorHole ra" and
    "map dw_door ra = filter (?P (pt 10 50) (pt 90 50)) (orEmpty (doors crossPlan))"
    by blast
  then have ma: "map dw_door ra = [doorCross]"
    unfolding dl fa by simp
  from door_hosting_is_per_wall [OF sc i1 so1 w1] obtain rb where
    hb: "holes (ws_shape b) = map doorHole rb" and
    "map dw_door rb = filter (?P (pt 50 10) (pt 50 90)) (orEmpty (doors crossPlan))"
    by blast
  then have mb: "map dw_door rb = [doorCross]"
    unfolding dl fb by simp
  from sc so0 so1 ha ma hb mb show ?thesis
    by (intro exI [of _ scene] exI [of _ a] exI [of _ b] exI [of _ ra] exI [of _ rb]) simp
qed

section \<open>Doors and rooms that render nothing\<close>

lemma DoorMesh_None_iff:
  "(DoorMesh door = None) =
     (case d_position door of None \<Rightarrow> True
      | Some p \<Rightarrow> \<not> typeof_number (px p) \<or> \<not> typeof_number (py p))"
  by (simp add: DoorMesh_def Let_def split: option.splits)

lemma RoomFloor_None_iff:
  "(RoomFloor room b = None) =
     (length (validPoints (r_polygon room)) < 3 \<or>
      (case r_center room of None \<Rightarrow> True
       | Some c \<Rightarrow> \<not> typeof_number (px c) \<or> \<not> typeof_number (py c)))"
  by (simp add: RoomFloor_def roomShape_def Let_def split: option.splits)

lemma validPoint_pt [simp]: "validPoint (Some (pt a b))"
  by (simp add: validPoint_def pt_def isNaN_def)

lemma validPoints_sample [simp]:
  "validPoints (Some []) = []"
  "validPoints (Some (Some (pt a b) # ps)) = pt a b # validPoints (Some ps)"
  by (simp_all add: validPoints_def List.map_filter_def)

lemmas sample_rooms = r1_def r2_def r3_def mkRoom_def

lemma atan2_axes:
  "0 < x \<Longrightarrow> atan2 0 x = 0" "x < 0 \<Longrightarrow> atan2 0 x = pi"
  "0 < y \<Longrightarrow> atan2 y 0 = pi / 2" "y < 0 \<Longrightarrow> atan2 y 0 = - (pi / 2)"
  by (simp_all add: atan2_def)

lemma sample_wall_ends:
  "w_start w1 = Some (pt 10 10)" "w_end w1 = Some (pt 90 10)"
  "w_start w2 = Some (pt 90 10)" "w_end w2 = Some (pt 90 70)"
  "w_start w3 = Some (pt 90 70)" "w_end w3 = Some (pt 10 70)"
  "w_start w4 = Some (pt 10 70)" "w_end w4 = Some (pt 10 10)"
  "w_start w5 = Some (pt 50 10)" "w_end w5 = Some (pt 50 70)"
  "w_start w6 = Some (pt 50 40)" "w_end w6 = Some (pt 90 40)"
  by (simp_all add: sample_walls)

lemma sample_wall_thickness:
  "w_thickness w1 = Some (Fin 2)" "w_thickness w2 = Some (Fin 2)"
  "w_thickness w3 = Some (Fin 2)" "w_thickness w4 = Some (Fin 2)"
  "w_thickness w5 = Some (Fin 1)" "w_thickness w6 = Some (Fin 1)"
  by (simp_all add: sample_walls)

lemmas wall_eval = sample_wall_thickness wallHoles_def sample_doors sweep_defs geometry_defs distanceTo_x distanceTo_z
  distanceToSquared_def wallShape_def doorHole_def or_default_def wallThickness_def truthy_def
  atan2_axes

section \<open>C6: the sample plan\<close>

text \<open>
  C6. On the sample plan of the application (walls \<open>w1\<close> to \<open>w6\<close>, doors \<open>d1\<close> to \<open>d3\<close>,
  rooms \<open>r1\<close> to \<open>r3\<close>) the scene is built, whatever the selection \<open>h\<close>, and it is the
  scene written out below: six wall solids, three door assemblies (each with its two
  jambs, header, two casings and leaf with two knobs) and three room slabs with their
  labels, only the room materials depending on \<open>h\<close>. Wall \<open>w5\<close> has exactly one hole, from
  \<open>23\<close> to \<open>27\<close>, which is the hole of door \<open>d1\<close> (world distance \<open>25\<close> from the start of
  \<open>w5\<close>, opening width \<open>4\<close>); \<open>w3\<close> has the hole of \<open>d3\<close>, \<open>w6\<close> that of \<open>d2\<close>, and \<open>w1\<close>,
  \<open>w2\<close> and \<open>w4\<close> have none. So \<open>d1\<close> is hosted by \<open>w5\<close> and by no other wall, as the door
  sweeps of the six walls also say by id.
\<close>

theorem sample_plan_reconstruction:
  "(let wallSolid = (\<lambda>pos rot thick len hs.
           \<lparr>ws_position = pos, ws_rotationY = rot, ws_meshZ = - thick / 2,
            ws_shape = \<lparr>outline = [(0, 0), (len, 0), (len, 3), (0, 3)], holes = hs\<rparr>,
            ws_extrude = \<lparr>depth = thick, bevelEnabled = True, bevelThickness = 0.02,
              bevelSize = 0.02, bevelSegments = 2, steps = 1\<rparr>,
            ws_color = ''#334155''\<rparr>);
        casing = (\<lambda>ow z.
           Group (0, 0, z)
             [Mesh (0, 2.325, 0) (BoxGeometry (ow + 0.5) 0.15 0.05) ''#475569'',
              Mesh (- ow / 2 - 0.125, 1.1, 0) (BoxGeometry 0.15 2.2 0.05) ''#475569'',
              Mesh (ow / 2 + 0.125, 1.1, 0) (BoxGeometry 0.15 2.2 0.05) ''#475569'']);
        doorAssembly = (\<lambda>pos rot ow.
           \<lparr>da_position = pos, da_rotationY = rot,
            da_children =
              [Mesh (- ow / 2 - 0.05, 1.1, 0) (BoxGeometry 0.1 2.2 0.6) ''#334155'',
               Mesh (ow / 2 + 0.05, 1.1, 0) (BoxGeometry 0.1 2.2 0.6) ''#334155'',
               Mesh (0, 2.25, 0) (BoxGeometry (ow + 0.2) 0.1 0.6) ''#334155'',
               casing ow (- 0.325),
               casing ow 0.325,
               Group (0, 1.1, 0)
                 [Mesh (0, 0, 0) (RoundedBox ow 2.18 0.1 0.02) ''#854d0e'',
                  Group (ow * 0.35, 0, 0.09)
                    [Mesh (0, 0, 0) (SphereGeometry 0.06) ''#fbbf24'',
                     Mesh (0, 0, - 0.18) (SphereGeometry 0.06) ''#fbbf24'']]]\<rparr>);
        roomNode = (\<lambda>shape hl label name area rid.
           \<lparr>rn_shape = shape, rn_depth = 0.1,
            rn_material =
              \<lparr>m_color = (if hl then ''#06b6d4'' else ''#1e293b''),
               m_opacity = (if hl then 0.9 else 1), m_transparent = hl,
               m_emissive = (if hl then ''#06b6d4'' else ''#000000''),
               m_emissiveIntensity = (if hl then 0.3 else 0)\<rparr>,
            rn_labelPos = label, rn_labelHighlighted = hl, rn_name = Some name,
            rn_area = Fin area, rn_pickId = Some rid\<rparr>)
    in SceneContent SAMPLE_DATA h = Inr
         \<lparr>s_walls =
            [Some (wallSolid \<lparr>vx = - 20, vy = 0, vz = - 20\<rparr> 0 0.4 40 []),
             Some (wallSolid \<lparr>vx = 20, vy = 0, vz = - 20\<rparr> (- (pi / 2)) 0.4 30 []),
             Some (wallSolid \<lparr>vx = 20, vy = 0, vz = 10\<rparr> (- pi) 0.4 40
                     [[(30, 0), (35, 0), (35, 2.2), (30, 2.2)]]),
             Some (wallSolid \<lparr>vx = - 20, vy = 0, vz = 10\<rparr> (pi / 2) 0.4 30 []),
             Some (wallSolid \<lparr>vx = 0, vy = 0, vz = - 20\<rparr> (- (pi / 2)) 0.3 30
                     [[(23, 0), (27, 0), (27, 2.2), (23, 2.2)]]),
             Some (wallSolid \<lparr>vx = 0, vy = 0, vz = - 5\<rparr> 0 0.3 20
                     [[(8.5, 0), (11.5, 0), (11.5, 2.2), (8.5, 2.2)]])],
          s_doors =
            [Some (doorAssembly (0, 0, 5) 0 4),
             Some (doorAssembly (10, 0, - 5) (- (pi / 2)) 3),
             Some (doorAssembly (- 12.5, 0, 10) 0 5)],
          s_rooms =
            [Some (roomNode [(- 20, 20), (0, 20), (0, - 10), (- 20, - 10)]
                     (h = Some ''r1'') (- 10, 2.5, - 5) ''Open Office'' 400 ''r1''),
             Some (roomNode [(0, 20), (20, 20), (20, 5), (0, 5)]
                     (h = Some ''r2'') (10, 2.5, - 12.5) ''Meeting Room'' 250 ''r2''),
             Some (roomNode [(0, 5), (20, 5), (20, - 10), (0, - 10)]
                     (h = Some ''r3'') (10, 2.5, 2.5) ''Lounge'' 250 ''r3'')]\<rparr>) \<and>
   sceneCounts (SceneContent SAMPLE_DATA h) = Some (6, 3, 3) \<and>
   hostedIds w1 [d1, d2, d3] = [] \<and>
   hostedIds w2 [d1, d2, d3] = [] \<and>
   hostedIds w3 [d1, d2, d3] = [Some ''d3''] \<and>
   hostedIds w4 [d1, d2, d3] = [] \<and>
   hostedIds w5 [d1, d2, d3] = [Some ''d1''] \<and>
   hostedIds w6 [d1, d2, d3] = [Some ''d2'']"
proof -
  note se = sample_wall_ends
  note n = pt_numeric pt_numeric
  let ?wallSolid = "\<lambda>pos rot thick len hs.
           \<lparr>ws_position = pos, ws_rotationY = rot, ws_meshZ = - thick / 2,
            ws_shape = \<lparr>outline = [(0, 0), (len, 0), (len, 3), (0, 3)], holes = hs\<rparr>,
            ws_extrude = \<lparr>depth = thick, bevelEnabled = True, bevelThickness = 0.02,
              bevelSize = 0.02, bevelSegments = 2, steps = 1\<rparr>,
            ws_color = ''#334155''\<rparr>"
  have W1: "WallSegment w1 (Some [d1, d2, d3])
      = Inr (Some (?wallSolid \<lparr>vx = - 20, vy = 0, vz = - 20\<rparr> 0 0.4 40 []))"
    by (simp add: WallSegment_numeric [OF se(1,2) n] wall_eval)
  have W2: "WallSegment w2 (Some [d1, d2, d3])
      = Inr (Some (?wallSolid \<lparr>vx = 20, vy = 0, vz = - 20\<rparr> (- (pi / 2)) 0.4 30 []))"
    by (simp add: WallSegment_numeric [OF se(3,4) n] wall_eval)
  have W3: "WallSegment w3 (Some [d1, d2, d3])
      = Inr (Some (?wallSolid \<lparr>vx = 20, vy = 0, vz = 10\<rparr> (- pi) 0.4 40
                     [[(30, 0), (35, 0), (35, 2.2), (30, 2.2)]]))"
    by (simp add: WallSegment_numeric [OF se(5,6) n] wall_eval)
  have W4: "WallSegment w4 (Some [d1, d2, d3])
      = Inr (Some (?wallSolid \<lparr>vx = - 20, vy = 0, vz = 10\<rparr> (pi / 2) 0.4 30 []))"
    by (simp add: WallSegment_numeric [OF se(7,8) n] wall_eval)
  have W5: "WallSegment w5 (Some [d1, d2, d3])
      = Inr (Some (?wallSolid \<lparr>vx = 0, vy = 0, vz = - 20\<rparr> (- (pi / 2)) 0.3 30
                     [[(23, 0), (27, 0), (27, 2.2), (23, 2.2)]]))"
    by (simp add: WallSegment_numeric [OF se(9,10) n] wall_eval)
  have W6: "WallSegment w6 (Some [d1, d2, d3])
      = Inr (Some (?wallSolid \<lparr>vx = 0, vy = 0, vz = - 5\<rparr> 0 0.3 20
                     [[(8.5, 0), (11.5, 0), (11.5, 2.2), (8.5, 2.2)]]))"
    by (simp add: WallSegment_numeric [OF se(11,12) n] wall_eval)
  let ?casing = "\<lambda>ow z.
           Group (0, 0, z)
             [Mesh (0, 2.325, 0) (BoxGeometry (ow + 0.5) 0.15 0.05) ''#475569'',
              Mesh (- ow / 2 - 0.125, 1.1, 0) (BoxGeometry 0.15 2.2 0.05) ''#475569'',
              Mesh (ow / 2 + 0.125, 1.1, 0) (BoxGeometry 0.15 2.2 0.05) ''#475569'']"
  let ?doorAssembly = "\<lambda>pos rot ow.
           \<lparr>da_position = pos, da_rotationY = rot,
            da_children =
              [Mesh (- ow / 2 - 0.05, 1.1, 0) (BoxGeometry 0.1 2.2 0.6) ''#334155'',
               Mesh (ow / 2 + 0.05, 1.1, 0) (BoxGeometry 0.1 2.2 0.6) ''#334155'',
               Mesh (0, 2.25, 0) (BoxGeometry (ow + 0.2) 0.1 0.6) ''#334155'',
               ?casing ow (- 0.325),
               ?casing ow 0.325,
               Group (0, 1.1, 0)
                 [Mesh (0, 0, 0) (RoundedBox ow 2.18 0.1 0.02) ''#854d0e'',
                  Group (ow * 0.35, 0, 0.09)
                    [Mesh (0, 0, 0) (SphereGeometry 0.06) ''#fbbf24'',
                     Mesh (0, 0, - 0.18) (SphereGeometry 0.06) ''#fbbf24'']]]\<rparr>"
  have D1: "DoorMesh d1 = Some (?doorAssembly (0, 0, 5) 0 4)"
    by (simp add: DoorMesh_def sample_doors pt_def or_default_def Let_def)
  have D2: "DoorMesh d2 = Some (?doorAssembly (10, 0, - 5) (- (pi / 2)) 3)"
    by (simp add: DoorMesh_def sample_doors pt_def or_default_def Let_def)
  have D3: "DoorMesh d3 = Some (?doorAssembly (- 12.5, 0, 10) 0 5)"
    by (simp add: DoorMesh_def sample_doors pt_def or_default_def Let_def)
  let ?roomNode = "\<lambda>shape hl label name area rid.
           \<lparr>rn_shape = shape, rn_depth = 0.1,
            rn_material =
              \<lparr>m_color = (if hl then ''#06b6d4'' else ''#1e293b''),
               m_opacity = (if hl then 0.9 else 1), m_transparent = hl,
               m_emissive = (if hl then ''#06b6d4'' else ''#000000''),
               m_emissiveIntensity = (if hl then 0.3 else 0)\<rparr>,
            rn_labelPos = label, rn_labelHighlighted = hl, rn_name = Some name,
            rn_area = Fin area, rn_pickId = Some rid\<rparr>"
  have R1: "RoomFloor r1 b = Some (?roomNode [(- 20, 20), (0, 20), (0, - 10), (- 20, - 10)]
                     b (- 10, 2.5, - 5) ''Open Office'' 400 ''r1'')" for b
    by (simp add: RoomFloor_def roomShape_def sample_rooms pt_numeric roomMaterial_def
        math_round_def)
       (simp add: pt_def)
  have R2: "RoomFloor r2 b = Some (?roomNode [(0, 20), (20, 20), (20, 5), (0, 5)]
                     b (10, 2.5, - 12.5) ''Meeting Room'' 250 ''r2'')" for b
    by (simp add: RoomFloor_def roomShape_def sample_rooms pt_numeric roomMaterial_def
        math_round_def)
       (simp add: pt_def)
  have R3: "RoomFloor r3 b = Some (?roomNode [(0, 5), (20, 5), (20, - 10), (0, - 10)]
                     b (10, 2.5, 2.5) ''Lounge'' 250 ''r3'')" for b
    by (simp add: RoomFloor_def roomShape_def sample_rooms pt_numeric roomMaterial_def
        math_round_def)
       (simp add: pt_def)
  have ids: "r_id r1 = Some ''r1''" "r_id r2 = Some ''r2''" "r_id r3 = Some ''r3''"
    by (simp_all add: sample_rooms)
  have hl: "strictEq h (Some i) = (h = Some i)" for i
    by (cases h) (simp_all add: strictEq_def)
  have scene: "SceneContent SAMPLE_DATA h = Inr
     \<lparr>s_walls =
        [Some (?wallSolid \<lparr>vx = - 20, vy = 0, vz = - 20\<rparr> 0 0.4 40 []),
         Some (?wallSolid \<lparr>vx = 20, vy = 0, vz = - 20\<rparr> (- (pi / 2)) 0.4 30 []),
         Some (?wallSolid \<lparr>vx = 20, vy = 0, vz = 10\<rparr> (- pi) 0.4 40
                 [[(30, 0), (35, 0), (35, 2.2), (30, 2.2)]]),
         Some (?wallSolid \<lparr>vx = - 20, vy = 0, vz = 10\<rparr> (pi / 2) 0.4 30 []),
         Some (?wallSolid \<lparr>vx = 0, vy = 0, vz = - 20\<rparr> (- (pi / 2)) 0.3 30
                 [[(23, 0), (27, 0), (27, 2.2), (23, 2.2)]]),
         Some (?wallSolid \<lparr>vx = 0, vy = 0, vz = - 5\<rparr> 0 0.3 20
                 [[(8.5, 0), (11.5, 0), (11.5, 2.2), (8.5, 2.2)]])],
      s_doors =
        [Some (?doorAssembly (0, 0, 5) 0 4),
         Some (?doorAssembly (10, 0, - 5) (- (pi / 2)) 3),
         Some (?doorAssembly (- 12.5, 0, 10) 0 5)],
      s_rooms =
        [Some (?roomNode [(- 20, 20), (0, 20), (0, - 10), (- 20, - 10)]
                 (h = Some ''r1'') (- 10, 2.5, - 5) ''Open Office'' 400 ''r1''),
         Some (?roomNode [(0, 20), (20, 20), (20, 5), (0, 5)]
                 (h = Some ''r2'') (10, 2.5, - 12.5) ''Meeting Room'' 250 ''r2''),
         Some (?roomNode [(0, 5), (20, 5), (20, - 10), (0, - 10)]
                 (h = Some ''r3'') (10, 2.5, 2.5) ''Lounge'' 250 ''r3'')]\<rparr>"
    unfolding SceneContent_def SAMPLE_DATA_def
    by (simp add: orEmpty_def W1 W2 W3 W4 W5 W6 D1 D2 D3 R1 R2 R3 ids hl)
  have counts: "sceneCounts (SceneContent SAMPLE_DATA h) = Some (6, 3, 3)"
    unfolding scene by (simp add: sceneCounts_def produced_def)
  have h1: "hostedIds w1 [d1, d2, d3] = []"
    by (simp add: hostedIds_def se sample_doors sweep_defs geometry_defs distanceTo_x distanceTo_z)
  have h2: "hostedIds w2 [d1, d2, d3] = []"
    by (simp add: hostedIds_def se sample_doors sweep_defs geometry_defs distanceTo_x distanceTo_z)
  have h3: "hostedIds w3 [d1, d2, d3] = [Some ''d3'']"
    by (simp add: hostedIds_def se sample_doors sweep_defs geometry_defs distanceTo_x distanceTo_z)
  have h4: "hostedIds w4 [d1, d2, d3] = []"
    by (simp add: hostedIds_def se sample_doors sweep_defs geometry_defs distanceTo_x distanceTo_z)
  have h5: "hostedIds w5 [d1, d2, d3] = [Some ''d1'']"
    by (simp add: hostedIds_def se sample_doors sweep_defs geometry_defs distanceTo_x distanceTo_z)
  have h6: "hostedIds w6 [d1, d2, d3] = [Some ''d2'']"
    by (simp add: hostedIds_def se sample_doors sweep_defs geometry_defs distanceTo_x distanceTo_z)
  show ?thesis
    unfolding Let_def using scene counts h1 h2 h3 h4 h5 h6 by (intro conjI)
qed

theorem sample_plan_reconstruction_witness:
  "map_sum id (\<lambda>scene. map (map_option (\<lambda>w. holes (ws_shape w))) (s_walls scene))
       (SceneContent SAMPLE_DATA None)
     = Inr [Some [], Some [], Some [[(30, 0), (35, 0), (35, 2.2), (30, 2.2)]], Some [],
            Some [[(23, 0), (27, 0), (27, 2.2), (23, 2.2)]],
            Some [[(8.5, 0), (11.5, 0), (11.5, 2.2), (8.5, 2.2)]]] \<and>
   sceneCounts (SceneContent SAMPLE_DATA None) = Some (6, 3, 3)"
proof -
  note c = sample_plan_reconstruction [of None]
  have counts: "sceneCounts (SceneContent SAMPLE_DATA None) = Some (6, 3, 3)"
    by (rule conjunct1 [OF conjunct2 [OF c]])
  have "map_sum id (\<lambda>scene. map (map_option (\<lambda>w. holes (ws_shape w))) (s_walls scene))
       (SceneContent SAMPLE_DATA None)
     = Inr [Some [], Some [], Some [[(30, 0), (35, 0), (35, 2.2), (30, 2.2)]], Some [],
            Some [[(23, 0), (27, 0), (27, 2.2), (23, 2.2)]],
            Some [[(8.5, 0), (11.5, 0), (11.5, 2.2), (8.5, 2.2)]]]"
    using conjunct1 [OF c] unfolding Let_def by simp
  with counts show ?thesis by simp
qed

section \<open>C8: rooms that cannot be rendered\<close>

text \<open>
  C8. A room whose polygon keeps fewer than three vertices after the filter (which drops
  absent entries and coordinates that are not numbers or are \<open>NaN\<close>), or whose centre is
  absent or has a coordinate that is not a number, renders nothing: \<open>RoomFloor\<close> returns
  no node, so there is neither a floor slab nor a label.
\<close>

theorem unrenderable_room_produces_nothing:
  assumes "length (validPoints (r_polygon room)) < 3 \<or> r_center room = None \<or>
           (\<exists>c. r_center room = Some c \<and> (\<not> typeof_number (px c) \<or> \<not> typeof_number (py c)))"
  shows "RoomFloor room isHighlighted = None"
  using assms by (auto simp: RoomFloor_None_iff)

theorem unrenderable_room_produces_nothing_witness:
  "validPoints (r_polygon roomTwo) = [pt 10 10, pt 50 10] \<and>
   RoomFloor roomTwo True = None \<and> RoomFloor roomNoCenter False = None"
proof -
  have vp: "validPoints (r_polygon roomTwo) = [pt 10 10, pt 50 10]"
    by (simp add: roomTwo_def validPoints_def List.map_filter_def validPoint_def ptNaN_def
        isNaN_def pt_def)
  then have "length (validPoints (r_polygon roomTwo)) < 3" by simp
  then have two: "RoomFloor roomTwo True = None"
    using unrenderable_room_produces_nothing [of roomTwo True] by blast
  have "r_center roomNoCenter = None" by (simp add: roomNoCenter_def)
  then have "RoomFloor roomNoCenter False = None"
    using unrenderable_room_produces_nothing [of roomNoCenter False] by blast
  with vp two show ?thesis by simp
qed

section \<open>C9: the selection touches room materials only\<close>

lemma RoomFloor_geometry:
  "map_option roomGeometry (RoomFloor room b) = map_option roomGeometry (RoomFloor room b')"
  by (simp add: RoomFloor_def roomGeometry_def split: option.splits)

text \<open>
  C9. For a fixed plan, the walls and the doors of the scene (or the exception, if a wall
  throws) do not depend on \<open>highlightedRoomId\<close>: \<open>SceneContent\<close> hands the selection to
  \<open>RoomFloor\<close> alone. Two selections give room nodes that agree once the material and the
  label's highlight flag are blanked, so only these differ. The scene is a function of
  the plan and the selection, so the same selection gives the same scene.
\<close>

theorem highlight_changes_only_room_materials:
  "map_sum id s_walls (SceneContent data h1) = map_sum id s_walls (SceneContent data h2) \<and>
   map_sum id s_doors (SceneContent data h1) = map_sum id s_doors (SceneContent data h2) \<and>
   map_sum id (\<lambda>scene. map (map_option roomGeometry) (s_rooms scene)) (SceneContent data h1)
     = map_sum id (\<lambda>scene. map (map_option roomGeometry) (s_rooms scene))
         (SceneContent data h2) \<and>
   map_option roomGeometry (RoomFloor room b1) = map_option roomGeometry (RoomFloor room b2)"
  by (simp add: SceneContent_def RoomFloor_geometry [of _ "strictEq h1 _" "strictEq h2 _"]
      RoomFloor_geometry [of room b1 b2] split: sum.splits)

theorem highlight_changes_only_room_materials_witness:
  "map_sum id s_walls (SceneContent SAMPLE_DATA None)
     = map_sum id s_walls (SceneContent SAMPLE_DATA (Some ''r1'')) \<and>
   map_sum id s_doors (SceneContent SAMPLE_DATA None)
     = map_sum id s_doors (SceneContent SAMPLE_DATA (Some ''r1'')) \<and>
   map_option rn_material (RoomFloor r1 (strictEq None (r_id r1))) = Some (roomMaterial False) \<and>
   map_option rn_material (RoomFloor r1 (strictEq (Some ''r1'') (r_id r1)))
     = Some (roomMaterial True)"
proof -
  have "map_option rn_material (RoomFloor r1 b) = Some (roomMaterial b)" for b
    by (simp add: RoomFloor_def roomShape_def sample_rooms pt_numeric)
  moreover have "strictEq None (r_id r1) = False" "strictEq (Some ''r1'') (r_id r1) = True"
    by (simp_all add: strictEq_def sample_rooms)
  ultimately show ?thesis
    using highlight_changes_only_room_materials [of SAMPLE_DATA None "Some ''r1''" r1 True False] by simp
qed

section \<open>C10: coordinates that are NaN\<close>

lemma mapCoord_nanTo50 [simp]: "mapCoord (nanTo50 v) = mapCoord v"
  by (simp add: nanTo50_def)

lemma typeof_number_nanTo50 [simp]: "typeof_number (nanTo50 v) = typeof_number v"
  by (simp add: nanTo50_def)

lemma worldPoint_nanTo50 [simp]: "worldPoint (pointNanTo50 p) = worldPoint p"
  by (simp add: worldPoint_def pointNanTo50_def)

lemma pointNanTo50_sel [simp]:
  "px (pointNanTo50 p) = nanTo50 (px p)" "py (pointNanTo50 p) = nanTo50 (py p)"
  by (simp_all add: pointNanTo50_def)

text \<open>
  C10 as stated fails for walls: a wall whose four coordinates are \<open>NaN\<close> passes the
  presence checks, but both endpoints map to the origin, so the degenerate-wall guard
  drops it and no geometry is produced.
\<close>

theorem all_nan_wall_skipped_counterexample:
  "typeof_number (px ptNaN) \<and> typeof_number (py ptNaN) \<and> w_start wallNaN = Some ptNaN \<and>
   w_end wallNaN = Some ptNaN \<and> WallSegment wallNaN None = Inr None"
  by (simp add: wallNaN_def ptNaN_def WallSegment_def worldPoint_def distanceToSquared_def)

text \<open>
  C10, amended. A wall or door whose coordinates are present but \<open>NaN\<close> passes the
  presence checks and is built exactly as the same wall or door with every \<open>NaN\<close>
  coordinate replaced by the plan coordinate \<open>50\<close>, whose mapped coordinate is \<open>0\<close>. A door
  at \<open>(NaN, NaN)\<close> gets its assembly at the world origin. A wall with numeric
  coordinates, \<open>NaN\<close> or not, is skipped exactly when the squared distance of its mapped
  endpoints is below \<open>0.01\<close>; the wall from \<open>(NaN, NaN)\<close> to \<open>(90,10)\<close> is built and starts
  at the world origin. Only room polygon vertices are filtered for \<open>NaN\<close>: a vertex with a
  \<open>NaN\<close> coordinate is dropped, while a room centre at \<open>(NaN, NaN)\<close> puts the label at
  mapped coordinate \<open>0\<close>.
\<close>

theorem nan_coordinates_built_as_centre:
  "WallSegment (wallNanTo50 wall) ds = WallSegment wall ds \<and>
   DoorMesh (doorNanTo50 door) = DoorMesh door \<and>
   (w_start wall = Some s \<and> w_end wall = Some e \<and>
    typeof_number (px s) \<and> typeof_number (py s) \<and>
    typeof_number (px e) \<and> typeof_number (py e) \<longrightarrow>
      (WallSegment wall ds = Inr None)
        = (distanceToSquared (worldPoint s) (worldPoint e) < 0.01)) \<and>
   map_option da_position (DoorMesh (door\<lparr>d_position := Some ptNaN\<rparr>)) = Some (0, 0, 0) \<and>
   map_sum id (map_option ws_position) (WallSegment wallHalfNaN None)
     = Inr (Some \<lparr>vx = 0, vy = 0, vz = 0\<rparr>) \<and>
   validPoint (Some \<lparr>px = JNum NaN, py = y\<rparr>) = False \<and>
   validPoint (Some \<lparr>px = x, py = JNum NaN\<rparr>) = False \<and>
   map_option rn_labelPos (RoomFloor roomNaNCenter b) = Some (0, 2.5, 0)"
proof -
  have w: "WallSegment (wallNanTo50 wall) ds = WallSegment wall ds"
    by (cases "w_start wall"; cases "w_end wall")
       (simp_all add: WallSegment_def wallNanTo50_def Let_def)
  have d: "DoorMesh (doorNanTo50 door) = DoorMesh door"
    by (cases "d_position door") (simp_all add: DoorMesh_def doorNanTo50_def Let_def)
  have g: "(WallSegment wall ds = Inr None)
             = (distanceToSquared (worldPoint s) (worldPoint e) < 0.01)"
    if "w_start wall = Some s" "w_end wall = Some e"
      "typeof_number (px s)" "typeof_number (py s)"
      "typeof_number (px e)" "typeof_number (py e)"
    by (simp add: WallSegment_numeric [OF that] split: sum.splits)
  have dn: "map_option da_position (DoorMesh (door\<lparr>d_position := Some ptNaN\<rparr>))
              = Some (0, 0, 0)"
    by (simp add: DoorMesh_def ptNaN_def Let_def)
  have se: "w_start wallHalfNaN = Some ptNaN" "w_end wallHalfNaN = Some (pt 90 10)"
    by (simp_all add: wallHalfNaN_def)
  have nn: "typeof_number (px ptNaN)" "typeof_number (py ptNaN)"
    by (simp_all add: ptNaN_def)
  have wn: "map_sum id (map_option ws_position) (WallSegment wallHalfNaN None)
     = Inr (Some \<lparr>vx = 0, vy = 0, vz = 0\<rparr>)"
    by (simp add: WallSegment_numeric [OF se nn pt_numeric] distanceToSquared_def)
       (simp add: worldPoint_def ptNaN_def)
  have v: "validPoint (Some \<lparr>px = JNum NaN, py = y\<rparr>) = False"
    "validPoint (Some \<lparr>px = x, py = JNum NaN\<rparr>) = False"
    by (simp_all add: validPoint_def isNaN_def)
  have r: "map_option rn_labelPos (RoomFloor roomNaNCenter b) = Some (0, 2.5, 0)"
    by (simp add: RoomFloor_def roomShape_def roomNaNCenter_def sample_rooms ptNaN_def)
  from w d g dn wn v r show ?thesis by blast
qed

theorem nan_coordinates_built_as_centre_witness:
  "WallSegment (wallNanTo50 wallHalfNaN) None = WallSegment wallHalfNaN None \<and>
   w_start (wallNanTo50 wallHalfNaN) = Some (pt 50 50) \<and>
   WallSegment wallHalfNaN None \<noteq> Inr None \<and>
   map_option da_position (DoorMesh doorNaN) = Some (0, 0, 0)"
proof -
  note c = nan_coordinates_built_as_centre [of wallHalfNaN None doorNaN ptNaN "pt 90 10"]
  have eq: "WallSegment (wallNanTo50 wallHalfNaN) None = WallSegment wallHalfNaN None"
    using c by blast
  have st: "w_start (wallNanTo50 wallHalfNaN) = Some (pt 50 50)"
    by (simp add: wallNanTo50_def wallHalfNaN_def pointNanTo50_def ptNaN_def nanTo50_def pt_def)
  have hyp: "w_start wallHalfNaN = Some ptNaN \<and> w_end wallHalfNaN = Some (pt 90 10) \<and>
    typeof_number (px ptNaN) \<and> typeof_number (py ptNaN) \<and>
    typeof_number (px (pt 90 10)) \<and> typeof_number (py (pt 90 10))"
    by (simp add: wallHalfNaN_def ptNaN_def pt_numeric)
  have "(WallSegment wallHalfNaN None = Inr None)
          = (distanceToSquared (worldPoint ptNaN) (worldPoint (pt 90 10)) < 0.01)"
    using c hyp by blast
  then have nd: "WallSegment wallHalfNaN None \<noteq> Inr None"
    by (simp add: distanceToSquared_def worldPoint_def ptNaN_def pt_def)
  have "doorNaN\<lparr>d_position := Some ptNaN\<rparr> = doorNaN"
    by (simp add: doorNaN_def)
  then have dn: "map_option da_position (DoorMesh doorNaN) = Some (0, 0, 0)"
    using c by simp
  from eq st nd dn show ?thesis by blast
qed

end
